theory Spec2Isabelle
  imports Main "HOL-Library.AList"
begin

section \<open>Values, exceptions and the environment\<close>

text \<open>
  The development embeds two modules of the Python client package:
  \<^verbatim>\<open>examples/python_client/correlation_middleware.py\<close> and
  \<^verbatim>\<open>examples/python_client/ai_workflow_client.py\<close>.

  A decoded JSON document. Numbers are integers: no modelled code path looks at a number.
  An object is an association list with distinct keys (the dict that the decoder built).
\<close>

datatype json =
    JNull
  | JBool bool
  | JInt int
  | JStr string
  | JArr "json list"
  | JObj "(string \<times> json) list"

type_synonym datetime = int

datatype uuid = Uuid string

fun str_uuid :: "uuid \<Rightarrow> string" where
  "str_uuid (Uuid s) = s"

text \<open>
  Exceptions as values. The first four are the classes of the client module
  (\<open>RegistrationError\<close>, \<open>HeartbeatError\<close> and \<open>ServiceDiscoveryError\<close> derive from
  \<open>AIWorkflowError\<close>). \<open>ClientError\<close> stands for \<open>aiohttp.ClientError\<close> and its
  subclasses, \<open>CancelledError\<close> for \<open>asyncio.CancelledError\<close>, \<open>ValidationError\<close> for
  \<open>pydantic.ValidationError\<close>, and \<open>OtherException cls msg\<close> for any other subclass of
  \<open>Exception\<close> (\<open>AttributeError\<close>, \<open>TypeError\<close>, \<open>ValueError\<close>,
  \<open>asyncio.TimeoutError\<close>, ...), with the name of its class. What an operation of the
  client or of the libraries raises is one of these; \<open>KeyboardInterrupt\<close> and \<open>SystemExit\<close>,
  which the interpreter delivers from outside, are not modelled.
\<close>

datatype exn =
    AIWorkflowError string
  | RegistrationError string
  | HeartbeatError string
  | ServiceDiscoveryError string
  | ClientError string
  | CancelledError
  | ValidationError string
  | OtherException string string

datatype exn_class =
    AIWorkflowError_class
  | RegistrationError_class
  | HeartbeatError_class
  | ServiceDiscoveryError_class
  | ClientError_class
  | CancelledError_class
  | ValidationError_class
  | Other_class string

fun class_of :: "exn \<Rightarrow> exn_class" where
  "class_of (AIWorkflowError m) = AIWorkflowError_class"
| "class_of (RegistrationError m) = RegistrationError_class"
| "class_of (HeartbeatError m) = HeartbeatError_class"
| "class_of (ServiceDiscoveryError m) = ServiceDiscoveryError_class"
| "class_of (ClientError m) = ClientError_class"
| "class_of CancelledError = CancelledError_class"
| "class_of (ValidationError m) = ValidationError_class"
| "class_of (OtherException cls m) = Other_class cls"

text \<open>
  \<open>except Exception\<close> catches every class above but \<open>asyncio.CancelledError\<close>, which
  derives from \<open>BaseException\<close>.
\<close>

fun is_Exception :: "exn \<Rightarrow> bool" where
  "is_Exception CancelledError = False"
| "is_Exception e = True"

text \<open>A Python dict with string keys, in insertion order: \<open>d[k] = v\<close> and \<open>d.get(k)\<close>.\<close>

type_synonym 'v dict = "(string \<times> 'v) list"

definition dict_set :: "'v dict \<Rightarrow> string \<Rightarrow> 'v \<Rightarrow> 'v dict" where
  "dict_set d k v = AList.update k v d"

definition dict_get :: "'v dict \<Rightarrow> string \<Rightarrow> 'v option" where
  "dict_get d k = map_of d k"

subsection \<open>HTTP exchanges\<close>

text \<open>The three pydantic models of the client that travel as request or response bodies.\<close>

record registration_request =
  rr_name :: string
  rr_endpoint :: string
  rr_capabilities :: "string list"
  rr_metadata :: "json dict"

record heartbeat_request =
  hb_timestamp :: datetime
  hb_status :: "string option"
  hb_metadata :: "json dict option"

record registration_response =
  rs_id :: string
  rs_name :: string
  rs_endpoint :: string
  rs_capabilities :: "string list"
  rs_status :: string
  rs_last_seen :: datetime
  rs_metadata :: "json dict"
  rs_created_at :: datetime
  rs_updated_at :: datetime

datatype http_method = GET | POST

datatype body =
    NoBody
  | RegistrationBody registration_request
  | HeartbeatBody heartbeat_request
  | JsonBody "json dict"

record request =
  rq_method :: http_method
  rq_url :: string
  rq_params :: "string dict"
  rq_json :: body
  rq_headers :: "string dict"

text \<open>
  What the client reads from an \<open>aiohttp\<close> response: \<open>response.status\<close>, and the results of
  \<open>await response.text()\<close> and \<open>await response.json()\<close>, each of which may raise.
\<close>

record response =
  status :: nat
  text_result :: "exn + string"
  json_result :: "exn + json"

datatype http_outcome = Responds response | Raises exn

text \<open>
  Everything outside the client object.
  \<^item> \<open>respond\<close>: what the network answers to a request, given the requests issued before it;
  \<^item> \<open>sent\<close>: the requests issued so far, oldest first;
  \<^item> \<open>correlation_id_ctx\<close>: the context variable of the middleware module;
  \<^item> \<open>now\<close>: the clock read by \<open>datetime.now(timezone.utc)\<close>;
  \<^item> \<open>RegistrationResponse_init\<close>: pydantic's construction \<open>RegistrationResponse(**data)\<close>;
  \<^item> \<open>UUID_init\<close>: the constructor \<open>uuid.UUID(s)\<close>;
  \<^item> \<open>repr_json\<close>: Python's formatting of numbers, lists and dicts inside an f-string;
  \<^item> \<open>uuid4\<close>, \<open>entropy\<close>: the \<open>n\<close>-th value drawn from \<open>uuid.uuid4()\<close>, and how many
    were drawn.
\<close>

record env =
  respond :: "request list \<Rightarrow> request \<Rightarrow> http_outcome"
  sent :: "request list"
  correlation_id_ctx :: "string option"
  now :: datetime
  RegistrationResponse_init :: "json \<Rightarrow> exn + registration_response"
  UUID_init :: "string \<Rightarrow> exn + uuid"
  repr_json :: "json \<Rightarrow> string"
  uuid4 :: "nat \<Rightarrow> uuid"
  entropy :: nat

text \<open>\<open>self.session.get(...)\<close> and \<open>self.session.post(...)\<close>: the request is recorded and answered.\<close>

definition http :: "env \<Rightarrow> request \<Rightarrow> http_outcome \<times> env" where
  "http w rq = (respond w (sent w) rq, w\<lparr>sent := sent w @ [rq]\<rparr>)"

section \<open>The correlation identifier middleware\<close>

definition CORRELATION_ID_HEADERS :: "string list" where
  "CORRELATION_ID_HEADERS =
     [''X-Correlation-ID'', ''X-Request-ID'', ''X-Trace-ID'', ''Correlation-ID'', ''Request-ID'']"

text \<open>
  \<open>generator\<close> is the constructor's optional argument: a callable without arguments, which may
  read and change the environment. \<open>header_name\<close> defaults to \<open>X-Correlation-ID\<close> and
  \<open>validate\<close> to \<open>True\<close>.
\<close>

record middleware =
  header_name :: string
  generator :: "(env \<Rightarrow> string \<times> env) option"
  validate :: bool

text \<open>
  An incoming request: its headers (looked up as the framework does, by a name in canonical
  spelling) and \<open>request.state.correlation_id\<close>. An outgoing response: its headers.
\<close>

record in_request =
  in_headers :: "string dict"
  state_correlation_id :: "string option"

record out_response =
  out_headers :: "string dict"

definition generate_correlation_id :: "env \<Rightarrow> string \<times> env" where
  "generate_correlation_id w = (str_uuid (uuid4 w (entropy w)), w\<lparr>entropy := Suc (entropy w)\<rparr>)"

text \<open>\<open>self.generator = generator or self._generate_correlation_id\<close>\<close>

definition self_generator :: "middleware \<Rightarrow> env \<Rightarrow> string \<times> env" where
  "self_generator mw = (case generator mw of Some g \<Rightarrow> g | None \<Rightarrow> generate_correlation_id)"

definition allowed_chars :: "char set" where
  "allowed_chars = set ''abcdefghijklmnopqrstuvwxyzABCDEFGHIJKLMNOPQRSTUVWXYZ0123456789-_.''"

definition is_valid_correlation_id :: "string \<Rightarrow> bool" where
  "is_valid_correlation_id correlation_id =
     (if correlation_id = [] then False
      else if length correlation_id < 1 \<or> length correlation_id > 128 then False
      else list_all (\<lambda>c. c \<in> allowed_chars) correlation_id)"

text \<open>The loop of \<open>_get_correlation_id_from_request\<close> over the header names still to try.\<close>

fun get_correlation_id_loop :: "middleware \<Rightarrow> in_request \<Rightarrow> string list \<Rightarrow> string option" where
  "get_correlation_id_loop mw request [] = None"
| "get_correlation_id_loop mw request (header # headers) =
     (case dict_get (in_headers request) header of
        None \<Rightarrow> get_correlation_id_loop mw request headers
      | Some correlation_id \<Rightarrow>
          if correlation_id \<noteq> [] then
            (if validate mw \<and> \<not> is_valid_correlation_id correlation_id then None
             else Some correlation_id)
          else get_correlation_id_loop mw request headers)"

definition get_correlation_id_from_request :: "middleware \<Rightarrow> in_request \<Rightarrow> string option" where
  "get_correlation_id_from_request mw request =
     get_correlation_id_loop mw request CORRELATION_ID_HEADERS"

text \<open>
  \<open>dispatch\<close>. \<open>call_next\<close> is the rest of the application: it receives the request and may
  raise, and it may use and change the environment.
\<close>

definition dispatch ::
  "middleware \<Rightarrow> in_request \<Rightarrow> (in_request \<Rightarrow> env \<Rightarrow> (exn + out_response) \<times> env) \<Rightarrow> env
     \<Rightarrow> (exn + out_response) \<times> env" where
  "dispatch mw request call_next w0 =
     (let found = get_correlation_id_from_request mw request;
          (correlation_id, w1) =
             (case found of
                None \<Rightarrow> self_generator mw w0
              | Some c \<Rightarrow> if c = [] then self_generator mw w0 else (c, w0));
          w2 = w1\<lparr>correlation_id_ctx := Some correlation_id\<rparr>;
          request' = request\<lparr>state_correlation_id := Some correlation_id\<rparr>;
          (result, w3) = call_next request' w2
      in case result of
           Inl e \<Rightarrow> (Inl e, w3)
         | Inr response \<Rightarrow>
             (Inr (response\<lparr>out_headers :=
                     dict_set (out_headers response) (header_name mw) correlation_id\<rparr>), w3))"

definition get_correlation_id :: "env \<Rightarrow> string option" where
  "get_correlation_id w = correlation_id_ctx w"

definition set_correlation_id :: "string \<Rightarrow> env \<Rightarrow> env" where
  "set_correlation_id correlation_id w = w\<lparr>correlation_id_ctx := Some correlation_id\<rparr>"

text \<open>
  \<open>inject_correlation_id_header(headers, correlation_id=None)\<close>. When the client module cannot
  import the middleware module it defines a stand-in that returns \<open>headers\<close> as they are, which
  is what this function does when the context holds no identifier.
\<close>

definition inject_correlation_id_header :: "env \<Rightarrow> string dict \<Rightarrow> string option \<Rightarrow> string dict" where
  "inject_correlation_id_header w headers correlation_id =
     (let correlation_id' =
            (case correlation_id of None \<Rightarrow> get_correlation_id w | Some c \<Rightarrow> Some c)
      in case correlation_id' of
           None \<Rightarrow> headers
         | Some c \<Rightarrow> if c \<noteq> [] then dict_set headers ''X-Correlation-ID'' c else headers)"

section \<open>The registry client\<close>

text \<open>Python's \<open>str\<close> of a non-negative integer, as an f-string formats \<open>response.status\<close>.\<close>

fun str_nat :: "nat \<Rightarrow> string" where
  "str_nat n =
     (if n < 10 then [''0123456789'' ! n]
      else str_nat (n div 10) @ [''0123456789'' ! (n mod 10)])"

declare str_nat.simps [simp del]

text \<open>
  A JSON value inside an f-string: a string stands for itself, \<open>None\<close>, \<open>True\<close> and \<open>False\<close>
  print as such, and the environment formats the rest.
\<close>

definition str_json :: "env \<Rightarrow> json \<Rightarrow> string" where
  "str_json w v =
     (case v of
        JStr s \<Rightarrow> s
      | JNull \<Rightarrow> ''None''
      | JBool b \<Rightarrow> (if b then ''True'' else ''False'')
      | _ \<Rightarrow> repr_json w v)"

text \<open>\<open>str(e)\<close> of an exception, as an f-string formats \<open>{e}\<close>.\<close>

fun str_exn :: "exn \<Rightarrow> string" where
  "str_exn (AIWorkflowError m) = m"
| "str_exn (RegistrationError m) = m"
| "str_exn (HeartbeatError m) = m"
| "str_exn (ServiceDiscoveryError m) = m"
| "str_exn (ClientError m) = m"
| "str_exn CancelledError = []"
| "str_exn (ValidationError m) = m"
| "str_exn (OtherException cls m) = m"

text \<open>
  \<open>ServiceConfig\<close>: the fields \<open>name\<close>, \<open>endpoint\<close>, \<open>capabilities\<close> and \<open>metadata\<close> carry the
  prefix \<open>cfg_\<close> here, the other fields keep their names.
\<close>

record service_config =
  cfg_name :: string
  cfg_endpoint :: string
  cfg_capabilities :: "string list"
  registry_endpoint :: string
  auth_token :: "string option"
  heartbeat_interval :: int
  cfg_metadata :: "json dict"
  service_type :: string

text \<open>
  The attributes of \<open>AIWorkflowClient\<close>. \<open>session\<close> and \<open>heartbeat_task\<close> tell whether the
  attribute holds an object (a client session, a task) or \<open>None\<close>; \<open>registered\<close> is
  \<open>_registered\<close>.
\<close>

record client =
  config :: service_config
  agent_id :: "uuid option"
  session :: bool
  heartbeat_task :: bool
  registered :: bool

definition is_registered :: "client \<Rightarrow> bool" where
  "is_registered c = registered c"

definition agent_id_str :: "client \<Rightarrow> string option" where
  "agent_id_str c = (case agent_id c of Some u \<Rightarrow> Some (str_uuid u) | None \<Rightarrow> None)"

definition start :: "client \<Rightarrow> client" where
  "start c = (if \<not> session c then c\<lparr>session := True\<rparr> else c)"

text \<open>
  \<open>if self.config.auth_token: headers["Authorization"] = f"Bearer {self.config.auth_token}"\<close>,
  the same three lines in every operation.
\<close>

definition add_authorization :: "service_config \<Rightarrow> string dict \<Rightarrow> string dict" where
  "add_authorization cfg headers =
     (case auth_token cfg of
        None \<Rightarrow> headers
      | Some t \<Rightarrow> if t \<noteq> [] then dict_set headers ''Authorization'' (''Bearer '' @ t) else headers)"

subsection \<open>register\<close>

text \<open>The request that \<open>register\<close> builds before its \<open>try\<close>.\<close>

definition register_request :: "client \<Rightarrow> env \<Rightarrow> request" where
  "register_request c w =
     (let registration =
            \<lparr>rr_name = cfg_name (config c), rr_endpoint = cfg_endpoint (config c),
             rr_capabilities = cfg_capabilities (config c), rr_metadata = cfg_metadata (config c)\<rparr>;
          url = registry_endpoint (config c) @ ''/registry/agents'';
          headers = [(''Content-Type'', ''application/json'')];
          headers = inject_correlation_id_header w headers None;
          headers = add_authorization (config c) headers
      in \<lparr>rq_method = POST, rq_url = url, rq_params = [], rq_json = RegistrationBody registration,
          rq_headers = headers\<rparr>)"

text \<open>\<open>except aiohttp.ClientError as e: raise RegistrationError(...)\<close>\<close>

fun register_except :: "exn \<Rightarrow> exn" where
  "register_except (ClientError m) =
     RegistrationError (''Network error during registration: '' @ str_exn (ClientError m))"
| "register_except e = e"

definition register :: "client \<Rightarrow> env \<Rightarrow> (exn + registration_response) \<times> client \<times> env" where
  "register c0 w0 =
     (let c = (if \<not> session c0 then start c0 else c0);
          (outcome, w) = http w0 (register_request c w0)
      in case outcome of
           Raises e \<Rightarrow> (Inl (register_except e), c, w)
         | Responds response \<Rightarrow>
             if status response = 200 \<or> status response = 201 then
               (case json_result response of
                  Inl e \<Rightarrow> (Inl (register_except e), c, w)
                | Inr data \<Rightarrow>
                    (case RegistrationResponse_init w data of
                       Inl e \<Rightarrow> (Inl (register_except e), c, w)
                     | Inr registration_response \<Rightarrow>
                         (case UUID_init w (rs_id registration_response) of
                            Inl e \<Rightarrow> (Inl (register_except e), c, w)
                          | Inr u \<Rightarrow>
                              (Inr registration_response,
                               c\<lparr>agent_id := Some u, registered := True\<rparr>, w))))
             else
               (case text_result response of
                  Inl e \<Rightarrow> (Inl (register_except e), c, w)
                | Inr error_text \<Rightarrow>
                    (Inl (register_except (RegistrationError
                       (''Registration failed with status '' @ str_nat (status response) @ '': ''
                          @ error_text))), c, w)))"

subsection \<open>send_heartbeat, start_heartbeat and the heartbeat loop\<close>

definition heartbeat_request_of :: "client \<Rightarrow> env \<Rightarrow> uuid \<Rightarrow> request" where
  "heartbeat_request_of c w aid =
     (let heartbeat =
            \<lparr>hb_timestamp = now w, hb_status = Some ''active'',
             hb_metadata = Some (cfg_metadata (config c))\<rparr>;
          url = registry_endpoint (config c) @ ''/registry/agents/'' @ str_uuid aid @ ''/heartbeat'';
          headers = [(''Content-Type'', ''application/json'')];
          headers = inject_correlation_id_header w headers None;
          headers = add_authorization (config c) headers
      in \<lparr>rq_method = POST, rq_url = url, rq_params = [], rq_json = HeartbeatBody heartbeat,
          rq_headers = headers\<rparr>)"

text \<open>\<open>except aiohttp.ClientError as e: logger.error(...); return False\<close>\<close>

fun heartbeat_except :: "exn \<Rightarrow> exn + bool" where
  "heartbeat_except (ClientError m) = Inr False"
| "heartbeat_except e = Inl e"

definition send_heartbeat :: "client \<Rightarrow> env \<Rightarrow> (exn + bool) \<times> client \<times> env" where
  "send_heartbeat c0 w0 =
     (case agent_id c0 of
        None \<Rightarrow> (Inl (HeartbeatError ''Service not registered - cannot send heartbeat''), c0, w0)
      | Some aid \<Rightarrow>
          (let c = (if \<not> session c0 then start c0 else c0);
               (outcome, w) = http w0 (heartbeat_request_of c w0 aid)
           in case outcome of
                Raises e \<Rightarrow> (heartbeat_except e, c, w)
              | Responds response \<Rightarrow>
                  if status response = 200 then (Inr True, c, w)
                  else
                    (case text_result response of
                       Inl e \<Rightarrow> (heartbeat_except e, c, w)
                     | Inr error_text \<Rightarrow> (Inr False, c, w))))"

text \<open>
  \<open>start_heartbeat\<close> creates the task that runs \<open>heartbeat_loop\<close>; the loop itself runs later,
  when the event loop schedules it.
\<close>

definition start_heartbeat :: "client \<Rightarrow> env \<Rightarrow> (exn + unit) \<times> client \<times> env" where
  "start_heartbeat c w =
     (if \<not> registered c then
        (Inl (HeartbeatError ''Service must be registered before starting heartbeat''), c, w)
      else (Inr (), c\<lparr>heartbeat_task := True\<rparr>, w))"

text \<open>
  One element per iteration of \<open>while True\<close>: \<open>asyncio.sleep\<close> returns at the given time, or the
  task is cancelled while it sleeps. The loop is observed over a finite run of iterations:
  \<open>Running\<close> says that it is still in \<open>while True\<close> when they are used up, \<open>Cancelled\<close> that
  it left through \<open>break\<close>, \<open>Propagated e\<close> that \<open>e\<close> escaped both \<open>except\<close> clauses. The list
  holds the exceptions that the second clause caught and logged, oldest first.
\<close>

datatype tick = SleepDone datetime | SleepCancelled

datatype loop_state = Running | Cancelled | Propagated exn

fun heartbeat_loop :: "client \<Rightarrow> env \<Rightarrow> tick list \<Rightarrow> loop_state \<times> exn list \<times> client \<times> env" where
  "heartbeat_loop c w [] = (Running, [], c, w)"
| "heartbeat_loop c w (SleepCancelled # ticks) = (Cancelled, [], c, w)"
| "heartbeat_loop c w (SleepDone t # ticks) =
     (case send_heartbeat c (w\<lparr>now := t\<rparr>) of
        (Inr ok, c', w') \<Rightarrow> heartbeat_loop c' w' ticks
      | (Inl e, c', w') \<Rightarrow>
          if e = CancelledError then (Cancelled, [], c', w')
          else if is_Exception e then
            (case heartbeat_loop c' w' ticks of
               (st, logged, c'', w'') \<Rightarrow> (st, e # logged, c'', w''))
          else (Propagated e, [], c', w'))"

subsection \<open>discover_services\<close>

text \<open>\<open>d.get(key, default)\<close> and \<open>d[key]\<close> on a decoded JSON value, and iteration over one.\<close>

definition json_get :: "json \<Rightarrow> string \<Rightarrow> json \<Rightarrow> exn + json" where
  "json_get d key dflt =
     (case d of
        JObj kvs \<Rightarrow> Inr (case dict_get kvs key of Some v \<Rightarrow> v | None \<Rightarrow> dflt)
      | _ \<Rightarrow> Inl (OtherException ''AttributeError'' ''object has no attribute get''))"

definition json_item :: "json \<Rightarrow> string \<Rightarrow> exn + json" where
  "json_item d key =
     (case d of
        JObj kvs \<Rightarrow>
          (case dict_get kvs key of Some v \<Rightarrow> Inr v | None \<Rightarrow> Inl (OtherException ''KeyError'' key))
      | JArr xs \<Rightarrow> Inl (OtherException ''TypeError'' ''list indices must be integers or slices, not str'')
      | JStr s \<Rightarrow> Inl (OtherException ''TypeError'' ''string indices must be integers'')
      | _ \<Rightarrow> Inl (OtherException ''TypeError'' ''object is not subscriptable''))"

definition json_iter :: "json \<Rightarrow> exn + json list" where
  "json_iter v =
     (case v of
        JArr xs \<Rightarrow> Inr xs
      | JObj kvs \<Rightarrow> Inr (map (\<lambda>kv. JStr (fst kv)) kvs)
      | JStr s \<Rightarrow> Inr (map (\<lambda>ch. JStr [ch]) s)
      | _ \<Rightarrow> Inl (OtherException ''TypeError'' ''object is not iterable''))"

text \<open>The comprehension \<open>[agent["name"] for agent in agents]\<close>.\<close>

fun service_names_of :: "json list \<Rightarrow> exn + json list" where
  "service_names_of [] = Inr []"
| "service_names_of (agent # agents) =
     (case json_item agent ''name'' of
        Inl e \<Rightarrow> Inl e
      | Inr n \<Rightarrow> (case service_names_of agents of Inl e \<Rightarrow> Inl e | Inr ns \<Rightarrow> Inr (n # ns)))"

definition discover_request :: "client \<Rightarrow> env \<Rightarrow> string \<Rightarrow> request" where
  "discover_request c w capability =
     (let url = registry_endpoint (config c) @ ''/registry/agents/discover'';
          params = [(''capability'', capability)];
          headers = [];
          headers = inject_correlation_id_header w headers None;
          headers = add_authorization (config c) headers
      in \<lparr>rq_method = GET, rq_url = url, rq_params = params, rq_json = NoBody,
          rq_headers = headers\<rparr>)"

fun discover_except :: "exn \<Rightarrow> exn" where
  "discover_except (ClientError m) =
     ServiceDiscoveryError (''Network error during service discovery: '' @ str_exn (ClientError m))"
| "discover_except e = e"

definition discover_services :: "client \<Rightarrow> env \<Rightarrow> string \<Rightarrow> (exn + json list) \<times> client \<times> env" where
  "discover_services c0 w0 capability =
     (let c = (if \<not> session c0 then start c0 else c0);
          (outcome, w) = http w0 (discover_request c w0 capability)
      in case outcome of
           Raises e \<Rightarrow> (Inl (discover_except e), c, w)
         | Responds response \<Rightarrow>
             if status response = 200 then
               (case json_result response of
                  Inl e \<Rightarrow> (Inl (discover_except e), c, w)
                | Inr data \<Rightarrow>
                    (case json_get data ''agents'' (JArr []) of
                       Inl e \<Rightarrow> (Inl (discover_except e), c, w)
                     | Inr agents \<Rightarrow>
                         (case json_iter agents of
                            Inl e \<Rightarrow> (Inl (discover_except e), c, w)
                          | Inr items \<Rightarrow>
                              (case service_names_of items of
                                 Inl e \<Rightarrow> (Inl (discover_except e), c, w)
                               | Inr service_names \<Rightarrow> (Inr service_names, c, w)))))
             else
               (case text_result response of
                  Inl e \<Rightarrow> (Inl (discover_except e), c, w)
                | Inr error_text \<Rightarrow>
                    (Inl (discover_except (ServiceDiscoveryError
                       (''Service discovery failed with status '' @ str_nat (status response)
                          @ '': '' @ error_text))), c, w)))"

subsection \<open>call_service and endpoint resolution\<close>

definition endpoint_request :: "client \<Rightarrow> env \<Rightarrow> request" where
  "endpoint_request c w =
     (let url = registry_endpoint (config c) @ ''/registry/agents'';
          headers = [];
          headers = inject_correlation_id_header w headers None;
          headers = add_authorization (config c) headers
      in \<lparr>rq_method = GET, rq_url = url, rq_params = [], rq_json = NoBody, rq_headers = headers\<rparr>)"

text \<open>
  The \<open>for\<close> loop of \<open>_get_service_endpoint\<close> over the agents still to visit, with the
  \<open>raise\<close> that follows it. \<open>agent.get("endpoint")\<close> is \<open>None\<close> when the key is missing.
\<close>

fun find_endpoint :: "json list \<Rightarrow> string \<Rightarrow> exn + json" where
  "find_endpoint [] service_name =
     Inl (ServiceDiscoveryError (''Service '' @ [CHR 0x27] @ service_name @ [CHR 0x27] @ '' not found''))"
| "find_endpoint (agent # agents) service_name =
     (case json_get agent ''name'' JNull of
        Inl e \<Rightarrow> Inl e
      | Inr n \<Rightarrow>
          if n = JStr service_name then json_get agent ''endpoint'' JNull
          else find_endpoint agents service_name)"

text \<open>
  \<open>_get_service_endpoint\<close> has no \<open>try\<close>: whatever the request or the decoding raises leaves
  it unchanged. Without a session, \<open>self.session.get\<close> is an attribute access on \<open>None\<close>.
\<close>

definition get_service_endpoint :: "client \<Rightarrow> env \<Rightarrow> string \<Rightarrow> (exn + json) \<times> env" where
  "get_service_endpoint c w0 service_name =
     (if \<not> session c then
        (Inl (OtherException ''AttributeError'' ''NoneType object has no attribute get''), w0)
      else
        (let (outcome, w) = http w0 (endpoint_request c w0)
         in case outcome of
              Raises e \<Rightarrow> (Inl e, w)
            | Responds response \<Rightarrow>
                if status response = 200 then
                  (case json_result response of
                     Inl e \<Rightarrow> (Inl e, w)
                   | Inr data \<Rightarrow>
                       (case json_get data ''agents'' (JArr []) of
                          Inl e \<Rightarrow> (Inl e, w)
                        | Inr agents \<Rightarrow>
                            (case json_iter agents of
                               Inl e \<Rightarrow> (Inl e, w)
                             | Inr items \<Rightarrow> (find_endpoint items service_name, w))))
                else
                  (case text_result response of
                     Inl e \<Rightarrow> (Inl e, w)
                   | Inr error_text \<Rightarrow>
                       (Inl (ServiceDiscoveryError
                          (''Failed to get service list: HTTP '' @ str_nat (status response)
                             @ '' - '' @ error_text)), w))))"

definition call_request :: "client \<Rightarrow> env \<Rightarrow> json \<Rightarrow> string \<Rightarrow> json dict \<Rightarrow> request" where
  "call_request c w endpoint method payload =
     (let url = str_json w endpoint @ ''/'' @ method;
          headers = [(''Content-Type'', ''application/json'')];
          headers = inject_correlation_id_header w headers None;
          headers = add_authorization (config c) headers
      in \<lparr>rq_method = POST, rq_url = url, rq_params = [], rq_json = JsonBody payload,
          rq_headers = headers\<rparr>)"

text \<open>\<open>except aiohttp.ClientError as e: raise AIWorkflowError(...)\<close>\<close>

fun call_except :: "string \<Rightarrow> string \<Rightarrow> exn \<Rightarrow> exn" where
  "call_except service_name method (ClientError m) =
     AIWorkflowError (''Network error calling '' @ service_name @ ''/'' @ method @ '': ''
        @ str_exn (ClientError m))"
| "call_except service_name method e = e"

definition call_service ::
  "client \<Rightarrow> env \<Rightarrow> string \<Rightarrow> string \<Rightarrow> json dict \<Rightarrow> (exn + json) \<times> client \<times> env" where
  "call_service c0 w0 service_name method payload =
     (let c = (if \<not> session c0 then start c0 else c0)
      in case get_service_endpoint c w0 service_name of
           (Inl e, w1) \<Rightarrow> (Inl e, c, w1)
         | (Inr endpoint, w1) \<Rightarrow>
             (let (outcome, w) = http w1 (call_request c w1 endpoint method payload)
              in case outcome of
                   Raises e \<Rightarrow> (Inl (call_except service_name method e), c, w)
                 | Responds response \<Rightarrow>
                     if status response = 200 then
                       (case json_result response of
                          Inl e \<Rightarrow> (Inl (call_except service_name method e), c, w)
                        | Inr result \<Rightarrow> (Inr result, c, w))
                     else
                       (case text_result response of
                          Inl e \<Rightarrow> (Inl (call_except service_name method e), c, w)
                        | Inr error_text \<Rightarrow>
                            (Inl (call_except service_name method (AIWorkflowError
                               (''Service call failed: '' @ service_name @ ''/'' @ method
                                  @ '' returned '' @ str_nat (status response) @ '': ''
                                  @ error_text))), c, w))))"

section \<open>The registry store\<close>

text \<open>
  Modelled from the spec: the registry service that receives the heartbeats is not among the
  sources, which hold its client only. The instance record, its status and
  \<open>update_heartbeat\<close> follow sections 3, 4.1 and 5 of the specification: the operation fails
  with \<open>NotFoundError\<close> when the id is unknown or the instance is deregistered; the store
  accepts a heartbeat only if its timestamp is at least the stored \<open>last_seen\<close>; an accepted
  heartbeat refreshes \<open>last_seen\<close>, sets the status to active and merges the metadata when
  there are some. A heartbeat that is not accepted leaves the store as it is and yields
  \<open>False\<close>.
\<close>

datatype instance_status = Active | Stale | Deregistered

datatype store_error = NotFoundError

record service_instance =
  si_id :: string
  si_name :: string
  si_endpoint :: string
  si_capabilities :: "string list"
  si_metadata :: "json dict"
  si_status :: instance_status
  si_last_seen :: datetime
  si_created_at :: datetime
  si_updated_at :: datetime

type_synonym store = "string \<rightharpoonup> service_instance"

definition merge_metadata :: "json dict \<Rightarrow> json dict option \<Rightarrow> json dict" where
  "merge_metadata old new =
     (case new of None \<Rightarrow> old | Some kvs \<Rightarrow> foldl (\<lambda>d kv. dict_set d (fst kv) (snd kv)) old kvs)"

definition update_heartbeat ::
  "store \<Rightarrow> string \<Rightarrow> datetime \<Rightarrow> json dict option \<Rightarrow> (store_error + bool) \<times> store" where
  "update_heartbeat st i timestamp md =
     (case st i of
        None \<Rightarrow> (Inl NotFoundError, st)
      | Some inst \<Rightarrow>
          if si_status inst = Deregistered then (Inl NotFoundError, st)
          else if timestamp \<ge> si_last_seen inst then
            (Inr True,
             st(i \<mapsto> inst\<lparr>si_last_seen := timestamp, si_status := Active,
                           si_metadata := merge_metadata (si_metadata inst) md\<rparr>))
          else (Inr False, st))"

text \<open>A heartbeat as it reaches the store, and a sequence of them applied in order of arrival.\<close>

record heartbeat =
  h_id :: string
  h_timestamp :: datetime
  h_metadata :: "json dict option"

fun apply_heartbeats :: "store \<Rightarrow> heartbeat list \<Rightarrow> store" where
  "apply_heartbeats st [] = st"
| "apply_heartbeats st (h # hs) =
     apply_heartbeats (snd (update_heartbeat st (h_id h) (h_timestamp h) (h_metadata h))) hs"

section \<open>Notions of the specification\<close>

text \<open>
  The identifier that a request supplies: the value of the first of the known headers that is
  present and not empty.
\<close>

fun first_supplied :: "in_request \<Rightarrow> string list \<Rightarrow> string option" where
  "first_supplied request [] = None"
| "first_supplied request (h # hs) =
     (case dict_get (in_headers request) h of
        Some v \<Rightarrow> if v \<noteq> [] then Some v else first_supplied request hs
      | None \<Rightarrow> first_supplied request hs)"

definition supplied_correlation_id :: "in_request \<Rightarrow> string option" where
  "supplied_correlation_id request = first_supplied request CORRELATION_ID_HEADERS"

text \<open>
  The specification's condition on a supplied identifier: not empty, at most 128 characters,
  each an ASCII letter, a digit, or one of \<open>-\<close>, \<open>_\<close> and \<open>.\<close>
\<close>

definition is_letter :: "char \<Rightarrow> bool" where
  "is_letter c = ((65 \<le> (of_char c :: nat) \<and> (of_char c :: nat) \<le> 90)
                  \<or> (97 \<le> (of_char c :: nat) \<and> (of_char c :: nat) \<le> 122))"

definition is_digit :: "char \<Rightarrow> bool" where
  "is_digit c = (48 \<le> (of_char c :: nat) \<and> (of_char c :: nat) \<le> 57)"

definition acceptable_char :: "char \<Rightarrow> bool" where
  "acceptable_char c = (is_letter c \<or> is_digit c \<or> c = CHR ''-'' \<or> c = CHR ''_'' \<or> c = CHR ''.'')"

definition acceptable_id :: "string \<Rightarrow> bool" where
  "acceptable_id s = (s \<noteq> [] \<and> length s \<le> 128 \<and> list_all acceptable_char s)"

text \<open>
  Processing a request under the identifier \<open>cid\<close>: the identifier is put in the context and in
  the request state, the application handles the request, and its response carries the
  identifier in the middleware's header.
\<close>

definition proceed_with ::
  "middleware \<Rightarrow> string \<Rightarrow> in_request \<Rightarrow> (in_request \<Rightarrow> env \<Rightarrow> (exn + out_response) \<times> env) \<Rightarrow> env
     \<Rightarrow> (exn + out_response) \<times> env" where
  "proceed_with mw cid request call_next w =
     (case call_next (request\<lparr>state_correlation_id := Some cid\<rparr>)
                     (w\<lparr>correlation_id_ctx := Some cid\<rparr>) of
        (Inl e, w') \<Rightarrow> (Inl e, w')
      | (Inr response, w') \<Rightarrow>
          (Inr (response\<lparr>out_headers := dict_set (out_headers response) (header_name mw) cid\<rparr>),
           w'))"

text \<open>The requests that an operation issued: those in \<open>w'\<close> that were not yet in \<open>w\<close>.\<close>

definition issued :: "env \<Rightarrow> env \<Rightarrow> request list" where
  "issued w w' = drop (length (sent w)) (sent w')"

text \<open>The identifier that the context makes available to an outgoing request, if any.\<close>

definition available_id :: "env \<Rightarrow> string option" where
  "available_id w =
     (case correlation_id_ctx w of None \<Rightarrow> None | Some c \<Rightarrow> if c = [] then None else Some c)"

text \<open>The class of the exception that an operation raised, if it raised one.\<close>

definition error_class :: "exn + 'a \<Rightarrow> exn_class option" where
  "error_class res = (case res of Inl e \<Rightarrow> Some (class_of e) | Inr v \<Rightarrow> None)"

text \<open>
  The agents that a response of the registry lists: the response has status 200 and its body is
  an object whose member \<open>agents\<close>, when there is one, is an array.
\<close>

definition agent_listing :: "response \<Rightarrow> json list option" where
  "agent_listing r =
     (if status r = 200 then
        (case json_result r of
           Inr (JObj d) \<Rightarrow>
             (case dict_get d ''agents'' of
                None \<Rightarrow> Some []
              | Some (JArr xs) \<Rightarrow> Some xs
              | Some other \<Rightarrow> None)
         | other \<Rightarrow> None)
      else None)"

definition is_agent :: "json \<Rightarrow> bool" where
  "is_agent a = (case a of JObj kvs \<Rightarrow> True | other \<Rightarrow> False)"

definition agent_named :: "string \<Rightarrow> json \<Rightarrow> bool" where
  "agent_named n a =
     (case a of JObj kvs \<Rightarrow> dict_get kvs ''name'' = Some (JStr n) | other \<Rightarrow> False)"

definition endpoint_of :: "json \<Rightarrow> json" where
  "endpoint_of a =
     (case a of
        JObj kvs \<Rightarrow> (case dict_get kvs ''endpoint'' of Some v \<Rightarrow> v | None \<Rightarrow> JNull)
      | other \<Rightarrow> JNull)"

text \<open>
  The class of error that a call surfaces for each outcome of the request to the target: an
  \<open>aiohttp\<close> client error becomes \<open>AIWorkflowError\<close>, as does a status other than 200, and any
  other exception keeps its class.
\<close>

definition surfaced :: "exn \<Rightarrow> exn_class" where
  "surfaced e = (if class_of e = ClientError_class then AIWorkflowError_class else class_of e)"

definition surfaced_class :: "http_outcome \<Rightarrow> exn_class option" where
  "surfaced_class outcome =
     (case outcome of
        Raises e \<Rightarrow> Some (surfaced e)
      | Responds r \<Rightarrow>
          if status r = 200 then
            (case json_result r of Inl e \<Rightarrow> Some (surfaced e) | Inr v \<Rightarrow> None)
          else
            (case text_result r of Inl e \<Rightarrow> Some (surfaced e) | Inr t \<Rightarrow> Some AIWorkflowError_class))"

text \<open>
  The registration that a response of the registry decodes to: the status is 200 or 201, the
  body is JSON, pydantic builds a \<open>RegistrationResponse\<close> from it, and its \<open>id\<close> is a UUID.
\<close>

definition decoded_registration :: "env \<Rightarrow> response \<Rightarrow> (registration_response \<times> uuid) option" where
  "decoded_registration w r =
     (if status r = 200 \<or> status r = 201 then
        (case json_result r of
           Inl e \<Rightarrow> None
         | Inr data \<Rightarrow>
             (case RegistrationResponse_init w data of
                Inl e \<Rightarrow> None
              | Inr rr \<Rightarrow> (case UUID_init w (rs_id rr) of Inl e \<Rightarrow> None | Inr u \<Rightarrow> Some (rr, u))))
      else None)"

text \<open>An environment whose network never delivers a cancellation to the heartbeat task.\<close>

definition never_cancelled :: "env \<Rightarrow> bool" where
  "never_cancelled w =
     (\<forall>h rq. respond w h rq \<noteq> Raises CancelledError
        \<and> (\<forall>r. respond w h rq = Responds r \<longrightarrow> text_result r \<noteq> Inl CancelledError))"

text \<open>
  The times at which the heartbeat loop wakes up: those of the sleeps that end before the first
  cancelled one.
\<close>

fun sleep_times :: "tick list \<Rightarrow> datetime list" where
  "sleep_times [] = []"
| "sleep_times (SleepCancelled # ticks) = []"
| "sleep_times (SleepDone t # ticks) = t # sleep_times ticks"

section \<open>Concrete inputs\<close>

text \<open>\<open>AIWorkflowClient.__init__\<close>, and the configuration of the module's own example.\<close>

definition init_client :: "service_config \<Rightarrow> client" where
  "init_client cfg =
     \<lparr>config = cfg, agent_id = None, session = False, heartbeat_task = False, registered = False\<rparr>"

definition tutor_config :: service_config where
  "tutor_config =
     \<lparr>cfg_name = ''ai-tutor-service'', cfg_endpoint = ''http://localhost:3001'',
      cfg_capabilities = [''tutoring'', ''education'', ''assistance''],
      registry_endpoint = ''http://localhost:8080'', auth_token = None, heartbeat_interval = 30,
      cfg_metadata = [(''version'', JStr ''1.0.0''), (''language'', JStr ''python''),
                      (''framework'', JStr ''fastapi'')],
      service_type = ''python''\<rparr>"

text \<open>
  Stand-ins for the library functions of the environment, for the concrete evaluations only.
  The decoder wants the nine fields of \<open>RegistrationResponse\<close>, each of the shape that its
  type asks for, the three timestamps as seconds since the epoch (which pydantic takes for a
  \<open>datetime\<close>); the \<open>UUID\<close> constructor wants 36 characters.
\<close>

fun json_strings :: "json list \<Rightarrow> string list option" where
  "json_strings [] = Some []"
| "json_strings (v # vs) =
     (case v of
        JStr x \<Rightarrow> (case json_strings vs of Some xs \<Rightarrow> Some (x # xs) | None \<Rightarrow> None)
      | other \<Rightarrow> None)"

definition field_str :: "json dict \<Rightarrow> string \<Rightarrow> string option" where
  "field_str kvs k = (case dict_get kvs k of Some (JStr x) \<Rightarrow> Some x | other \<Rightarrow> None)"

definition field_int :: "json dict \<Rightarrow> string \<Rightarrow> int option" where
  "field_int kvs k = (case dict_get kvs k of Some (JInt x) \<Rightarrow> Some x | other \<Rightarrow> None)"

definition field_strs :: "json dict \<Rightarrow> string \<Rightarrow> string list option" where
  "field_strs kvs k = (case dict_get kvs k of Some (JArr vs) \<Rightarrow> json_strings vs | other \<Rightarrow> None)"

definition field_obj :: "json dict \<Rightarrow> string \<Rightarrow> json dict option" where
  "field_obj kvs k = (case dict_get kvs k of Some (JObj d) \<Rightarrow> Some d | other \<Rightarrow> None)"

definition example_RegistrationResponse :: "json \<Rightarrow> exn + registration_response" where
  "example_RegistrationResponse data =
     (case data of
        JObj kvs \<Rightarrow>
          (case field_str kvs ''id'' of None \<Rightarrow> Inl (ValidationError ''id'') | Some i \<Rightarrow>
           case field_str kvs ''name'' of None \<Rightarrow> Inl (ValidationError ''name'') | Some n \<Rightarrow>
           case field_str kvs ''endpoint'' of None \<Rightarrow> Inl (ValidationError ''endpoint'') | Some e \<Rightarrow>
           case field_strs kvs ''capabilities'' of
             None \<Rightarrow> Inl (ValidationError ''capabilities'') | Some cs \<Rightarrow>
           case field_str kvs ''status'' of None \<Rightarrow> Inl (ValidationError ''status'') | Some st \<Rightarrow>
           case field_int kvs ''last_seen'' of
             None \<Rightarrow> Inl (ValidationError ''last_seen'') | Some ls \<Rightarrow>
           case field_obj kvs ''metadata'' of None \<Rightarrow> Inl (ValidationError ''metadata'') | Some md \<Rightarrow>
           case field_int kvs ''created_at'' of
             None \<Rightarrow> Inl (ValidationError ''created_at'') | Some ca \<Rightarrow>
           case field_int kvs ''updated_at'' of
             None \<Rightarrow> Inl (ValidationError ''updated_at'') | Some ua \<Rightarrow>
             Inr \<lparr>rs_id = i, rs_name = n, rs_endpoint = e, rs_capabilities = cs, rs_status = st,
                  rs_last_seen = ls, rs_metadata = md, rs_created_at = ca, rs_updated_at = ua\<rparr>)
      | other \<Rightarrow> Inl (OtherException ''TypeError'' ''argument after ** must be a mapping''))"

definition example_UUID :: "string \<Rightarrow> exn + uuid" where
  "example_UUID s =
     (if length s = 36 then Inr (Uuid s)
      else Inl (OtherException ''ValueError'' ''badly formed hexadecimal UUID string''))"

text \<open>An environment in which nothing was sent yet and the network behaves as \<open>net\<close> says.\<close>

definition env_with ::
  "(request list \<Rightarrow> request \<Rightarrow> http_outcome) \<Rightarrow> string option \<Rightarrow> env" where
  "env_with net ctx =
     \<lparr>respond = net, sent = [], correlation_id_ctx = ctx, now = 0,
      RegistrationResponse_init = example_RegistrationResponse, UUID_init = example_UUID,
      repr_json = (\<lambda>v. ''?''), uuid4 = (\<lambda>n. Uuid (''generated-'' @ str_nat n)), entropy = 0\<rparr>"

definition reply :: "nat \<Rightarrow> string \<Rightarrow> json \<Rightarrow> http_outcome" where
  "reply st txt js = Responds \<lparr>status = st, text_result = Inr txt, json_result = Inr js\<rparr>"

text \<open>Two middlewares, a request with the given headers, and an application that answers.\<close>

definition default_middleware :: middleware where
  "default_middleware = \<lparr>header_name = ''X-Correlation-ID'', generator = None, validate = True\<rparr>"

definition lenient_middleware :: middleware where
  "lenient_middleware = \<lparr>header_name = ''X-Correlation-ID'', generator = None, validate = False\<rparr>"

definition request_with :: "string dict \<Rightarrow> in_request" where
  "request_with hs = \<lparr>in_headers = hs, state_correlation_id = None\<rparr>"

definition plain_app :: "in_request \<Rightarrow> env \<Rightarrow> (exn + out_response) \<times> env" where
  "plain_app rq w = (Inr \<lparr>out_headers = []\<rparr>, w)"

text \<open>Networks: one that refuses every connection, one that answers 200, one that times out.\<close>

definition offline :: "request list \<Rightarrow> request \<Rightarrow> http_outcome" where
  "offline h rq = Raises (ClientError ''Cannot connect to host'')"

definition accepting :: "request list \<Rightarrow> request \<Rightarrow> http_outcome" where
  "accepting h rq = reply 200 [] JNull"

definition timing_out :: "request list \<Rightarrow> request \<Rightarrow> http_outcome" where
  "timing_out h rq = Raises (OtherException ''TimeoutError'' [])"

text \<open>
  A configuration without a name and with an endpoint that is no URL, and registries that
  reject a registration, admit it, or answer 200 with a body that is not JSON.
\<close>

definition unnamed_config :: service_config where
  "unnamed_config = tutor_config\<lparr>cfg_name := [], cfg_endpoint := ''not a url''\<rparr>"

definition rejecting :: "request list \<Rightarrow> request \<Rightarrow> http_outcome" where
  "rejecting h rq = reply 400 ''name must not be empty'' JNull"

text \<open>
  The record that the registry keeps of a registration, the body with which it answers 201,
  and what that body decodes to.
\<close>

definition created :: "registration_request \<Rightarrow> response" where
  "created b =
     \<lparr>status = 201, text_result = Inr [],
      json_result =
        Inr (JObj [(''id'', JStr ''123e4567-e89b-12d3-a456-426614174000''),
                   (''name'', JStr (rr_name b)),
                   (''endpoint'', JStr (rr_endpoint b)),
                   (''capabilities'', JArr (map JStr (rr_capabilities b))),
                   (''status'', JStr ''active''),
                   (''last_seen'', JInt 1700000000),
                   (''metadata'', JObj (rr_metadata b)),
                   (''created_at'', JInt 1700000000),
                   (''updated_at'', JInt 1700000000)])\<rparr>"

definition registration_of :: "registration_request \<Rightarrow> registration_response" where
  "registration_of b =
     \<lparr>rs_id = ''123e4567-e89b-12d3-a456-426614174000'', rs_name = rr_name b,
      rs_endpoint = rr_endpoint b, rs_capabilities = rr_capabilities b, rs_status = ''active'',
      rs_last_seen = 1700000000, rs_metadata = rr_metadata b, rs_created_at = 1700000000,
      rs_updated_at = 1700000000\<rparr>"

definition registration_body :: "service_config \<Rightarrow> registration_request" where
  "registration_body cfg =
     \<lparr>rr_name = cfg_name cfg, rr_endpoint = cfg_endpoint cfg,
      rr_capabilities = cfg_capabilities cfg, rr_metadata = cfg_metadata cfg\<rparr>"

definition admitting :: "request list \<Rightarrow> request \<Rightarrow> http_outcome" where
  "admitting h rq =
     (case rq_json rq of
        RegistrationBody b \<Rightarrow> Responds (created b)
      | other \<Rightarrow> reply 400 ''no registration'' JNull)"

definition not_json :: "request list \<Rightarrow> request \<Rightarrow> http_outcome" where
  "not_json h rq =
     Responds \<lparr>status = 200, text_result = Inr ''<html>ok</html>'',
               json_result = Inl (ClientError ''Attempt to decode JSON with unexpected mimetype'')\<rparr>"

text \<open>
  A registry that lists two instances named \<open>dup-svc\<close> and one named \<open>svc-a\<close>, in front of
  a target that behaves as given; a client with a session; a client that has registered.
\<close>

definition listed_agents :: "json list" where
  "listed_agents =
     [JObj [(''name'', JStr ''dup-svc''), (''endpoint'', JStr ''http://localhost:9001'')],
      JObj [(''name'', JStr ''dup-svc''), (''endpoint'', JStr ''http://localhost:9002'')],
      JObj [(''name'', JStr ''svc-a''), (''endpoint'', JStr ''http://localhost:9003'')]]"

definition listing :: json where
  "listing = JObj [(''agents'', JArr listed_agents)]"

definition listed :: response where
  "listed = \<lparr>status = 200, text_result = Inr [], json_result = Inr listing\<rparr>"

definition registry_then :: "http_outcome \<Rightarrow> request list \<Rightarrow> request \<Rightarrow> http_outcome" where
  "registry_then target h rq = (if rq_method rq = GET then Responds listed else target)"

definition started_client :: client where
  "started_client = start (init_client tutor_config)"

definition registered_client :: client where
  "registered_client =
     (init_client tutor_config)\<lparr>agent_id := Some (Uuid ''123e4567-e89b-12d3-a456-426614174000''),
                                 registered := True\<rparr>"

text \<open>A store that holds one instance, last seen at time 100.\<close>

definition example_instance :: service_instance where
  "example_instance =
     \<lparr>si_id = ''i-1'', si_name = ''svc-a'', si_endpoint = ''http://localhost:9001'',
      si_capabilities = [''tutoring''], si_metadata = [], si_status = Stale, si_last_seen = 100,
      si_created_at = 50, si_updated_at = 100\<rparr>"

definition example_store :: store where
  "example_store = Map.empty(''i-1'' \<mapsto> example_instance)"

section \<open>Properties of the model\<close>

subsection \<open>Dictionaries, sessions and requests\<close>

lemma dict_get_set [simp]: "dict_get (dict_set d k v) k' = (if k' = k then Some v else dict_get d k')"
  by (simp add: dict_get_def dict_set_def update_conv')

lemma start_fields [simp]:
  "config (start c) = config c" "agent_id (start c) = agent_id c"
  "registered (start c) = registered c" "heartbeat_task (start c) = heartbeat_task c"
  "session (start c)"
  by (simp_all add: start_def)

lemma start_when_needed [simp]: "(if \<not> session c then start c else c) = start c"
  by (simp add: start_def)

lemma requests_of_started [simp]:
  "register_request (start c) w = register_request c w"
  "heartbeat_request_of (start c) w aid = heartbeat_request_of c w aid"
  "discover_request (start c) w capability = discover_request c w capability"
  "endpoint_request (start c) w = endpoint_request c w"
  "call_request (start c) w ep m p = call_request c w ep m p"
  by (simp_all add: register_request_def heartbeat_request_of_def discover_request_def
      endpoint_request_def call_request_def)

lemma requests_after_sending [simp]:
  "endpoint_request c (w\<lparr>sent := s\<rparr>) = endpoint_request c w"
  "call_request c (w\<lparr>sent := s\<rparr>) ep m p = call_request c w ep m p"
  by (simp_all add: endpoint_request_def call_request_def inject_correlation_id_header_def
      get_correlation_id_def str_json_def split: json.splits)

lemma injected_header:
  "dict_get (add_authorization cfg (inject_correlation_id_header w hs None)) ''X-Correlation-ID'' =
     (case available_id w of Some c \<Rightarrow> Some c | None \<Rightarrow> dict_get hs ''X-Correlation-ID'')"
  by (simp add: add_authorization_def inject_correlation_id_header_def get_correlation_id_def
      available_id_def split: option.splits)

lemma request_headers:
  "dict_get (rq_headers (register_request c w)) ''X-Correlation-ID'' = available_id w"
  "dict_get (rq_headers (heartbeat_request_of c w aid)) ''X-Correlation-ID'' = available_id w"
  "dict_get (rq_headers (discover_request c w capability)) ''X-Correlation-ID'' = available_id w"
  "dict_get (rq_headers (endpoint_request c w)) ''X-Correlation-ID'' = available_id w"
  "dict_get (rq_headers (call_request c w ep m p)) ''X-Correlation-ID'' = available_id w"
  by (simp_all add: register_request_def heartbeat_request_of_def discover_request_def
      endpoint_request_def call_request_def Let_def injected_header split: option.splits)
     (simp_all add: dict_get_def)

subsection \<open>What each operation sends\<close>

lemma register_env:
  "snd (snd (register c w)) = w\<lparr>sent := sent w @ [register_request c w]\<rparr>"
  by (simp add: register_def http_def Let_def split: http_outcome.splits sum.splits)

lemma send_heartbeat_env:
  "snd (snd (send_heartbeat c w)) =
     (case agent_id c of
        None \<Rightarrow> w
      | Some aid \<Rightarrow> w\<lparr>sent := sent w @ [heartbeat_request_of c w aid]\<rparr>)"
  by (simp add: send_heartbeat_def http_def Let_def split: option.splits http_outcome.splits sum.splits)

lemma discover_services_env:
  "snd (snd (discover_services c w capability)) =
     w\<lparr>sent := sent w @ [discover_request c w capability]\<rparr>"
  by (simp add: discover_services_def http_def Let_def split: http_outcome.splits sum.splits)

lemma get_service_endpoint_env:
  "snd (get_service_endpoint c w n) =
     (if session c then w\<lparr>sent := sent w @ [endpoint_request c w]\<rparr> else w)"
  by (simp add: get_service_endpoint_def http_def Let_def split: http_outcome.splits sum.splits)

lemma call_service_env:
  "snd (snd (call_service c w n m p)) =
     (case fst (get_service_endpoint (start c) w n) of
        Inl e \<Rightarrow> w\<lparr>sent := sent w @ [endpoint_request c w]\<rparr>
      | Inr ep \<Rightarrow> w\<lparr>sent := sent w @ [endpoint_request c w, call_request c w ep m p]\<rparr>)"
proof -
  obtain res w1 where g: "get_service_endpoint (start c) w n = (res, w1)"
    by (cases "get_service_endpoint (start c) w n")
  have w1: "w1 = w\<lparr>sent := sent w @ [endpoint_request c w]\<rparr>"
    using get_service_endpoint_env [of "start c" w n] g by simp
  show ?thesis
    using g w1
    by (cases res)
       (simp_all add: call_service_def http_def Let_def split: http_outcome.splits sum.splits)
qed

lemma issued_appended [simp]: "issued w (w\<lparr>sent := sent w @ rs\<rparr>) = rs"
  by (simp add: issued_def)

lemma issued_nothing [simp]: "issued w w = []"
  by (simp add: issued_def)

subsection \<open>The middleware\<close>

lemma allowed_chars_iff: "c \<in> allowed_chars \<longleftrightarrow> acceptable_char c"
  unfolding allowed_chars_def acceptable_char_def is_letter_def is_digit_def
  apply (cases c)
  subgoal for b0 b1 b2 b3 b4 b5 b6 b7
    apply (cases b0; cases b1; cases b2; cases b3; cases b4; cases b5; cases b6; cases b7)
    apply simp_all
    done
  done

lemma is_valid_iff_acceptable: "is_valid_correlation_id s = acceptable_id s"
  by (auto simp: is_valid_correlation_id_def acceptable_id_def allowed_chars_iff list_all_iff)

lemma loop_validating:
  "validate mw \<Longrightarrow>
     get_correlation_id_loop mw request hs =
       (case first_supplied request hs of
          None \<Rightarrow> None
        | Some s \<Rightarrow> if acceptable_id s then Some s else None)"
  by (induction hs) (auto simp: is_valid_iff_acceptable split: option.splits)

lemma loop_not_validating:
  "\<not> validate mw \<Longrightarrow> get_correlation_id_loop mw request hs = first_supplied request hs"
  by (induction hs) (auto split: option.splits)

lemma loop_nonempty: "get_correlation_id_loop mw request hs = Some s \<Longrightarrow> s \<noteq> []"
  by (induction hs) (auto split: option.splits if_splits)

lemma dispatch_proceeds:
  "dispatch mw request call_next w =
     (case get_correlation_id_from_request mw request of
        Some c \<Rightarrow> proceed_with mw c request call_next w
      | None \<Rightarrow>
          (case self_generator mw w of (g, w1) \<Rightarrow> proceed_with mw g request call_next w1))"
proof (cases "get_correlation_id_from_request mw request")
  case None
  then show ?thesis
    by (simp add: dispatch_def proceed_with_def Let_def split: prod.splits sum.splits)
next
  case (Some c)
  then have "c \<noteq> []"
    by (auto simp: get_correlation_id_from_request_def dest: loop_nonempty)
  with Some show ?thesis
    by (simp add: dispatch_def proceed_with_def Let_def split: prod.splits sum.splits)
qed

lemma echoed:
  "proceed_with mw cid request call_next w = (Inr response, w') \<Longrightarrow>
     dict_get (out_headers response) (header_name mw) = Some cid"
  by (auto simp: proceed_with_def split: prod.splits sum.splits)

subsection \<open>Registration\<close>


lemma register_fails_undecoded:
  assumes "respond w (sent w) (register_request c w) = Responds r"
    and "decoded_registration w r = None"
  shows "isl (fst (register c w)) \<and> fst (snd (register c w)) = start c"
  using assms
  by (auto simp: register_def http_def Let_def decoded_registration_def
      split: sum.splits if_splits)


lemma register_fails_status:
  assumes "respond w (sent w) (register_request c w) = Responds r"
    and "status r \<noteq> 200" and "status r \<noteq> 201" and "text_result r = Inr t"
  shows "register c w =
     (Inl (RegistrationError (''Registration failed with status '' @ str_nat (status r) @ '': '' @ t)),
      start c, w\<lparr>sent := sent w @ [register_request c w]\<rparr>)"
  using assms by (simp add: register_def http_def Let_def)


subsection \<open>Endpoint resolution\<close>

lemma class_of_call_except: "class_of (call_except n m e) = surfaced e"
  by (cases e) (simp_all add: surfaced_def)

lemma find_endpoint_first:
  "list_all is_agent agents \<Longrightarrow>
     find_endpoint agents n =
       (case filter (agent_named n) agents of
          [] \<Rightarrow> Inl (ServiceDiscoveryError
                  (''Service '' @ [CHR 0x27] @ n @ [CHR 0x27] @ '' not found''))
        | a # rest \<Rightarrow> Inr (endpoint_of a))"
  by (induction agents)
     (auto simp: is_agent_def agent_named_def endpoint_of_def json_get_def
       split: json.splits option.splits)

lemma get_service_endpoint_listing:
  assumes "session c"
    and "respond w (sent w) (endpoint_request c w) = Responds r"
    and "agent_listing r = Some agents"
  shows "get_service_endpoint c w n =
     (find_endpoint agents n, w\<lparr>sent := sent w @ [endpoint_request c w]\<rparr>)"
  using assms
  by (auto simp: get_service_endpoint_def http_def Let_def agent_listing_def json_get_def
      json_iter_def split: if_splits sum.splits json.splits option.splits)

lemma get_service_endpoint_raises:
  assumes "session c"
    and "respond w (sent w) (endpoint_request c w) = Raises e"
  shows "get_service_endpoint c w n = (Inl e, w\<lparr>sent := sent w @ [endpoint_request c w]\<rparr>)"
  using assms by (simp add: get_service_endpoint_def http_def)

lemma get_service_endpoint_status:
  assumes "session c"
    and "respond w (sent w) (endpoint_request c w) = Responds r"
    and "status r \<noteq> 200" and "text_result r = Inr t"
  shows "get_service_endpoint c w n =
     (Inl (ServiceDiscoveryError
        (''Failed to get service list: HTTP '' @ str_nat (status r) @ '' - '' @ t)),
      w\<lparr>sent := sent w @ [endpoint_request c w]\<rparr>)"
  using assms by (simp add: get_service_endpoint_def http_def)

lemma call_service_unresolved:
  "get_service_endpoint (start c) w n = (Inl e, w1) \<Longrightarrow> call_service c w n m p = (Inl e, start c, w1)"
  by (simp add: call_service_def)

lemma call_service_resolved:
  assumes "get_service_endpoint (start c) w n = (Inr ep, w1)"
  shows "fst (call_service c w n m p) =
     (case respond w1 (sent w1) (call_request c w1 ep m p) of
        Raises e \<Rightarrow> Inl (call_except n m e)
      | Responds r \<Rightarrow>
          if status r = 200 then
            (case json_result r of Inl e \<Rightarrow> Inl (call_except n m e) | Inr v \<Rightarrow> Inr v)
          else
            (case text_result r of
               Inl e \<Rightarrow> Inl (call_except n m e)
             | Inr t \<Rightarrow>
                 Inl (AIWorkflowError
                   (''Service call failed: '' @ n @ ''/'' @ m @ '' returned '' @ str_nat (status r)
                      @ '': '' @ t))))"
  using assms
  by (simp add: call_service_def http_def Let_def split: http_outcome.splits sum.splits)

lemma call_except_other: "class_of e \<noteq> ClientError_class \<Longrightarrow> call_except n m e = e"
  by (cases e) simp_all

subsection \<open>The heartbeat loop\<close>

lemma every_exception_handled: "e = CancelledError \<or> is_Exception e"
  by (cases e) simp_all

lemma respond_after_heartbeat: "respond (snd (snd (send_heartbeat c w))) = respond w"
  by (simp add: send_heartbeat_env split: option.splits)

lemma never_cancelled_respond: "respond w' = respond w \<Longrightarrow> never_cancelled w' = never_cancelled w"
  by (simp add: never_cancelled_def)

lemma heartbeat_not_cancelled:
  "never_cancelled w \<Longrightarrow> fst (send_heartbeat c w) \<noteq> Inl CancelledError"
proof -
  assume nc: "never_cancelled w"
  have x: "heartbeat_except e \<noteq> Inl CancelledError" if "e \<noteq> CancelledError" for e
    using that by (cases e) simp_all
  show ?thesis
  proof (cases "agent_id c")
    case None
    then show ?thesis by (simp add: send_heartbeat_def)
  next
    case (Some aid)
    show ?thesis
    proof (cases "respond w (sent w) (heartbeat_request_of c w aid)")
      case (Raises e)
      with nc have "e \<noteq> CancelledError" by (auto simp: never_cancelled_def)
      with Raises Some show ?thesis by (simp add: send_heartbeat_def http_def x)
    next
      case (Responds r)
      with nc have "text_result r \<noteq> Inl CancelledError" by (auto simp: never_cancelled_def)
      with Responds Some show ?thesis
        by (auto simp: send_heartbeat_def http_def Let_def x split: sum.splits if_splits)
    qed
  qed
qed

lemma loop_never_propagates: "fst (heartbeat_loop c w ticks) \<noteq> Propagated e"
proof (induction ticks arbitrary: c w)
  case Nil
  then show ?case by simp
next
  case (Cons tk ticks)
  show ?case
  proof (cases tk)
    case SleepCancelled
    then show ?thesis by simp
  next
    case (SleepDone t)
    obtain res c' w' where s: "send_heartbeat c (w\<lparr>now := t\<rparr>) = (res, c', w')"
      by (cases "send_heartbeat c (w\<lparr>now := t\<rparr>)") auto
    show ?thesis
    proof (cases res)
      case (Inr ok)
      with s SleepDone Cons.IH [of c' w'] show ?thesis by simp
    next
      case (Inl x)
      with s SleepDone Cons.IH [of c' w'] every_exception_handled [of x] show ?thesis
        by (auto split: prod.splits)
    qed
  qed
qed

lemma send_heartbeat_client:
  "fst (snd (send_heartbeat c w)) = (case agent_id c of None \<Rightarrow> c | Some aid \<Rightarrow> start c)"
  by (simp add: send_heartbeat_def http_def Let_def
      split: option.splits http_outcome.splits sum.splits)

lemma heartbeat_request_same:
  "config c' = config c \<Longrightarrow> now w' = now w \<Longrightarrow> correlation_id_ctx w' = correlation_id_ctx w \<Longrightarrow>
     heartbeat_request_of c' w' aid = heartbeat_request_of c w aid"
  by (simp add: heartbeat_request_of_def inject_correlation_id_header_def get_correlation_id_def)

text \<open>
  One iteration whose sleep ends at time \<open>t\<close>, in an environment without cancellation: the
  loop goes on with the remaining iterations, in the state that the heartbeat leaves.
\<close>

lemma loop_step:
  assumes "never_cancelled w"
  shows "\<exists>c' w'. fst (snd (send_heartbeat c (w\<lparr>now := t\<rparr>))) = c'
           \<and> snd (snd (send_heartbeat c (w\<lparr>now := t\<rparr>))) = w'
           \<and> never_cancelled w'
           \<and> fst (heartbeat_loop c w (SleepDone t # ticks)) = fst (heartbeat_loop c' w' ticks)
           \<and> snd (snd (snd (heartbeat_loop c w (SleepDone t # ticks)))) =
               snd (snd (snd (heartbeat_loop c' w' ticks)))"
proof -
  obtain res c' w' where s: "send_heartbeat c (w\<lparr>now := t\<rparr>) = (res, c', w')"
    by (cases "send_heartbeat c (w\<lparr>now := t\<rparr>)") auto
  have nt: "never_cancelled (w\<lparr>now := t\<rparr>)"
    using assms never_cancelled_respond [of "w\<lparr>now := t\<rparr>" w] by simp
  have "respond w' = respond (w\<lparr>now := t\<rparr>)"
    using respond_after_heartbeat [of c "w\<lparr>now := t\<rparr>"] s by simp
  then have nw: "never_cancelled w'"
    using nt never_cancelled_respond by blast
  have nc: "res \<noteq> Inl CancelledError"
    using heartbeat_not_cancelled [OF nt, of c] s by simp
  have "fst (heartbeat_loop c w (SleepDone t # ticks)) = fst (heartbeat_loop c' w' ticks)
      \<and> snd (snd (snd (heartbeat_loop c w (SleepDone t # ticks)))) =
          snd (snd (snd (heartbeat_loop c' w' ticks)))"
  proof (cases res)
    case (Inr ok)
    with s show ?thesis by simp
  next
    case (Inl x)
    with nc have "x \<noteq> CancelledError" by simp
    with Inl s every_exception_handled [of x] show ?thesis
      by (auto split: prod.splits)
  qed
  with s nw show ?thesis by simp
qed

lemma loop_state:
  "never_cancelled w \<Longrightarrow>
     fst (heartbeat_loop c w ticks) = (if SleepCancelled \<in> set ticks then Cancelled else Running)"
proof (induction ticks arbitrary: c w)
  case Nil
  then show ?case by simp
next
  case (Cons tk ticks)
  show ?case
  proof (cases tk)
    case SleepCancelled
    then show ?thesis by simp
  next
    case (SleepDone t)
    from loop_step [OF Cons.prems, of c t ticks] obtain c' w' where
      "never_cancelled w'"
      "fst (heartbeat_loop c w (SleepDone t # ticks)) = fst (heartbeat_loop c' w' ticks)"
      by blast
    with Cons.IH [of w' c'] SleepDone show ?thesis by simp
  qed
qed

lemma loop_sent:
  "never_cancelled w \<Longrightarrow> agent_id c = Some aid \<Longrightarrow>
     sent (snd (snd (snd (heartbeat_loop c w ticks)))) =
       sent w @ map (\<lambda>t. heartbeat_request_of c (w\<lparr>now := t\<rparr>) aid) (sleep_times ticks)"
proof (induction ticks arbitrary: c w)
  case Nil
  then show ?case by simp
next
  case (Cons tk ticks)
  show ?case
  proof (cases tk)
    case SleepCancelled
    then show ?thesis by simp
  next
    case (SleepDone t)
    let ?c = "fst (snd (send_heartbeat c (w\<lparr>now := t\<rparr>)))"
    let ?w = "snd (snd (send_heartbeat c (w\<lparr>now := t\<rparr>)))"
    from loop_step [OF Cons.prems(1), of c t ticks] have
      nw: "never_cancelled ?w"
      and e: "snd (snd (snd (heartbeat_loop c w (SleepDone t # ticks)))) =
               snd (snd (snd (heartbeat_loop ?c ?w ticks)))"
      by auto
    have c': "?c = start c"
      using Cons.prems(2) by (simp add: send_heartbeat_client)
    have w': "?w = w\<lparr>now := t, sent := sent w @ [heartbeat_request_of c (w\<lparr>now := t\<rparr>) aid]\<rparr>"
      using Cons.prems(2) by (simp add: send_heartbeat_env)
    have a: "agent_id ?c = Some aid"
      using c' Cons.prems(2) by simp
    have same: "heartbeat_request_of ?c (?w\<lparr>now := t'\<rparr>) aid =
        heartbeat_request_of c (w\<lparr>now := t'\<rparr>) aid" for t'
      by (rule heartbeat_request_same) (simp_all add: c' w')
    have "sent (snd (snd (snd (heartbeat_loop ?c ?w ticks)))) =
        sent ?w @ map (\<lambda>t'. heartbeat_request_of ?c (?w\<lparr>now := t'\<rparr>) aid) (sleep_times ticks)"
      using Cons.IH [OF nw a] .
    then show ?thesis
      using e SleepDone by (simp add: same) (simp add: w')
  qed
qed

subsection \<open>The store\<close>

lemma update_heartbeat_last_seen:
  "st i = Some a \<Longrightarrow>
     \<exists>b. snd (update_heartbeat st j ts md) i = Some b \<and> si_last_seen a \<le> si_last_seen b"
  by (auto simp: update_heartbeat_def split: option.splits)

lemma apply_heartbeats_last_seen:
  "st i = Some a \<Longrightarrow> \<exists>b. apply_heartbeats st hs i = Some b \<and> si_last_seen a \<le> si_last_seen b"
proof (induction hs arbitrary: st a)
  case Nil
  then show ?case by simp
next
  case (Cons h hs)
  from update_heartbeat_last_seen [of st i a "h_id h" "h_timestamp h" "h_metadata h"] Cons.prems
  obtain b where b: "snd (update_heartbeat st (h_id h) (h_timestamp h) (h_metadata h)) i = Some b"
    and le: "si_last_seen a \<le> si_last_seen b"
    by blast
  from Cons.IH [of "snd (update_heartbeat st (h_id h) (h_timestamp h) (h_metadata h))" b] b
  obtain d where
    "apply_heartbeats (snd (update_heartbeat st (h_id h) (h_timestamp h) (h_metadata h))) hs i = Some d"
    and "si_last_seen b \<le> si_last_seen d"
    by blast
  with le show ?case by auto
qed

subsection \<open>Unfolding the concrete inputs\<close>

lemmas concrete_middleware =
  default_middleware_def lenient_middleware_def request_with_def plain_app_def offline_def
  env_with_def supplied_correlation_id_def CORRELATION_ID_HEADERS_def acceptable_id_def
  acceptable_char_def is_letter_def is_digit_def proceed_with_def self_generator_def
  generate_correlation_id_def dict_get_def dict_set_def str_nat.simps

lemmas concrete_client =
  init_client_def tutor_config_def unnamed_config_def env_with_def reply_def
  rejecting_def admitting_def created_def not_json_def offline_def
  example_RegistrationResponse_def registration_of_def registration_body_def
  field_str_def field_int_def field_strs_def field_obj_def
  example_UUID_def register_request_def inject_correlation_id_header_def
  get_correlation_id_def add_authorization_def dict_get_def dict_set_def

lemmas concrete_calls =
  listed_agents_def listing_def listed_def registry_then_def started_client_def start_def endpoint_request_def
  call_request_def str_json_def agent_listing_def is_agent_def agent_named_def endpoint_of_def

section \<open>The claims\<close>

subsection \<open>C1: how a failed call is classified\<close>

text \<open>
  C1, as stated, fails. A refused connection and a status 500 from the target are two of the
  causes that the claim wants told apart by the type of the error; \<open>call_service\<close> raises
  \<open>AIWorkflowError\<close> for both, and only the message differs.
\<close>

theorem same_class_counterexample:
  "fst (call_service (init_client tutor_config)
         (env_with (registry_then (Raises (ClientError ''Cannot connect to host''))) None)
         ''svc-a'' ''tutor'' []) =
     Inl (AIWorkflowError ''Network error calling svc-a/tutor: Cannot connect to host'')
   \<and> fst (call_service (init_client tutor_config)
         (env_with (registry_then (reply 500 ''boom'' JNull)) None)
         ''svc-a'' ''tutor'' []) =
     Inl (AIWorkflowError ''Service call failed: svc-a/tutor returned 500: boom'')"
  by (simp add: call_service_def get_service_endpoint_def http_def Let_def json_get_def
      json_iter_def str_nat.simps concrete_calls concrete_client)

text \<open>
  C1, amended. What the request for the registry's listing raises leaves \<open>call_service\<close>
  unchanged, a connection failure included. When the registry answers it with a status other
  than 200 and a body that can be read, and when it lists agents none of which has the name,
  \<open>call_service\<close> raises \<open>ServiceDiscoveryError\<close>. Whatever else endpoint resolution raises
  leaves \<open>call_service\<close> unchanged as well. Once the endpoint is resolved, the outcome of the
  request to the target decides: an \<open>aiohttp\<close> client error becomes \<open>AIWorkflowError\<close>
  (network error), a status other than 200 with a readable body becomes \<open>AIWorkflowError\<close>
  (service call failed), and any other exception, a timeout for one, is raised unchanged; in
  all cases the class of the error is the one that \<open>surfaced_class\<close> gives.
\<close>

theorem call_failures_surfaced:
  "(respond w (sent w) (endpoint_request c w) = Raises e \<longrightarrow>
      fst (call_service c w n m p) = Inl e)
   \<and> (respond w (sent w) (endpoint_request c w) = Responds r \<and> status r \<noteq> 200
        \<and> text_result r = Inr t \<longrightarrow>
      fst (call_service c w n m p) =
        Inl (ServiceDiscoveryError
               (''Failed to get service list: HTTP '' @ str_nat (status r) @ '' - '' @ t)))
   \<and> (respond w (sent w) (endpoint_request c w) = Responds r \<and> agent_listing r = Some agents
        \<and> list_all is_agent agents \<and> \<not> list_ex (agent_named n) agents \<longrightarrow>
      fst (call_service c w n m p) =
        Inl (ServiceDiscoveryError (''Service '' @ [CHR 0x27] @ n @ [CHR 0x27] @ '' not found'')))
   \<and> (get_service_endpoint (start c) w n = (Inl e, v) \<longrightarrow>
      fst (call_service c w n m p) = Inl e)
   \<and> (get_service_endpoint (start c) w n = (Inr ep, v) \<longrightarrow>
      error_class (fst (call_service c w n m p)) =
        surfaced_class (respond v (sent v) (call_request c v ep m p))
      \<and> (respond v (sent v) (call_request c v ep m p) = Raises (ClientError msg) \<longrightarrow>
          fst (call_service c w n m p) =
            Inl (AIWorkflowError (''Network error calling '' @ n @ ''/'' @ m @ '': '' @ msg)))
      \<and> (respond v (sent v) (call_request c v ep m p) = Responds r \<and> status r \<noteq> 200
            \<and> text_result r = Inr t \<longrightarrow>
          fst (call_service c w n m p) =
            Inl (AIWorkflowError
                   (''Service call failed: '' @ n @ ''/'' @ m @ '' returned ''
                      @ str_nat (status r) @ '': '' @ t)))
      \<and> (respond v (sent v) (call_request c v ep m p) = Raises e
            \<and> class_of e \<noteq> ClientError_class \<longrightarrow>
          fst (call_service c w n m p) = Inl e))"
proof (intro conjI impI)
  show "fst (call_service c w n m p) = Inl e"
    if "respond w (sent w) (endpoint_request c w) = Raises e"
    using that get_service_endpoint_raises [of "start c" w e n]
    by (simp add: call_service_unresolved)
  show "fst (call_service c w n m p) =
        Inl (ServiceDiscoveryError
               (''Failed to get service list: HTTP '' @ str_nat (status r) @ '' - '' @ t))"
    if "respond w (sent w) (endpoint_request c w) = Responds r \<and> status r \<noteq> 200
        \<and> text_result r = Inr t"
    using that get_service_endpoint_status [of "start c" w r t n]
    by (simp add: call_service_unresolved)
  show "fst (call_service c w n m p) =
        Inl (ServiceDiscoveryError (''Service '' @ [CHR 0x27] @ n @ [CHR 0x27] @ '' not found''))"
    if h: "respond w (sent w) (endpoint_request c w) = Responds r \<and> agent_listing r = Some agents
        \<and> list_all is_agent agents \<and> \<not> list_ex (agent_named n) agents"
  proof -
    have "filter (agent_named n) agents = []"
      using h by (simp add: list_ex_iff filter_empty_conv)
    then have "find_endpoint agents n =
        Inl (ServiceDiscoveryError (''Service '' @ [CHR 0x27] @ n @ [CHR 0x27] @ '' not found''))"
      using h by (simp add: find_endpoint_first)
    then show ?thesis
      using h get_service_endpoint_listing [of "start c" w r agents n]
      by (simp add: call_service_unresolved)
  qed
  show "fst (call_service c w n m p) = Inl e"
    if "get_service_endpoint (start c) w n = (Inl e, v)"
    using that by (simp add: call_service_unresolved)
  show "error_class (fst (call_service c w n m p)) =
        surfaced_class (respond v (sent v) (call_request c v ep m p))"
    if "get_service_endpoint (start c) w n = (Inr ep, v)"
    using that
    by (simp add: call_service_resolved error_class_def surfaced_class_def class_of_call_except
        split: http_outcome.splits sum.splits)
  show "fst (call_service c w n m p) =
          Inl (AIWorkflowError (''Network error calling '' @ n @ ''/'' @ m @ '': '' @ msg))"
    if "get_service_endpoint (start c) w n = (Inr ep, v)"
      and "respond v (sent v) (call_request c v ep m p) = Raises (ClientError msg)"
    using that by (simp add: call_service_resolved)
  show "fst (call_service c w n m p) =
          Inl (AIWorkflowError
                 (''Service call failed: '' @ n @ ''/'' @ m @ '' returned ''
                    @ str_nat (status r) @ '': '' @ t))"
    if "get_service_endpoint (start c) w n = (Inr ep, v)"
      and "respond v (sent v) (call_request c v ep m p) = Responds r \<and> status r \<noteq> 200
            \<and> text_result r = Inr t"
    using that by (simp add: call_service_resolved)
  show "fst (call_service c w n m p) = Inl e"
    if "get_service_endpoint (start c) w n = (Inr ep, v)"
      and "respond v (sent v) (call_request c v ep m p) = Raises e
            \<and> class_of e \<noteq> ClientError_class"
    using that by (simp add: call_service_resolved call_except_other)
qed

theorem call_failures_surfaced_witness:
  "fst (call_service (init_client tutor_config) (env_with offline None) ''svc-a'' ''tutor'' []) =
     Inl (ClientError ''Cannot connect to host'')
   \<and> fst (call_service (init_client tutor_config) (env_with rejecting None)
            ''svc-a'' ''tutor'' []) =
       Inl (ServiceDiscoveryError ''Failed to get service list: HTTP 400 - name must not be empty'')
   \<and> error_class (fst (call_service (init_client tutor_config)
            (env_with (registry_then (reply 200 [] JNull)) None)
            ''nonexistent-service'' ''tutor'' [])) = Some ServiceDiscoveryError_class
   \<and> fst (get_service_endpoint (start (init_client tutor_config))
            (env_with (registry_then (Raises (OtherException ''TimeoutError'' []))) None)
            ''svc-a'') = Inr (JStr ''http://localhost:9003'')
   \<and> fst (call_service (init_client tutor_config)
            (env_with (registry_then (Raises (OtherException ''TimeoutError'' []))) None)
            ''svc-a'' ''tutor'' []) = Inl (OtherException ''TimeoutError'' [])
   \<and> fst (call_service (init_client tutor_config)
            (env_with (registry_then (Raises (ClientError ''Server disconnected''))) None)
            ''svc-a'' ''tutor'' []) =
       Inl (AIWorkflowError ''Network error calling svc-a/tutor: Server disconnected'')
   \<and> fst (call_service (init_client tutor_config)
            (env_with (registry_then (reply 503 ''busy'' JNull)) None)
            ''svc-a'' ''tutor'' []) =
       Inl (AIWorkflowError ''Service call failed: svc-a/tutor returned 503: busy'')"
proof -
  let ?c = "init_client tutor_config"
  let ?rq = "\<lparr>rq_method = GET, rq_url = ''http://localhost:8080/registry/agents'', rq_params = [],
              rq_json = NoBody, rq_headers = []\<rparr>"
  let ?call = "\<lparr>rq_method = POST, rq_url = ''http://localhost:9003/tutor'', rq_params = [],
                rq_json = JsonBody [], rq_headers = [(''Content-Type'', ''application/json'')]\<rparr>"
  have rq: "endpoint_request ?c (env_with net None) = ?rq" for net
    by (simp add: endpoint_request_def concrete_client)
  have call: "call_request ?c (env_with net None\<lparr>sent := x\<rparr>) (JStr ''http://localhost:9003'')
      ''tutor'' [] = ?call" for net x
    by (simp add: call_request_def str_json_def concrete_client)
  have res: "get_service_endpoint (start ?c) (env_with (registry_then target) None) ''svc-a'' =
      (Inr (JStr ''http://localhost:9003''),
       env_with (registry_then target) None\<lparr>sent := [?rq]\<rparr>)" for target
    by (simp add: get_service_endpoint_def http_def Let_def json_get_def json_iter_def
        concrete_calls concrete_client)
  have l: "agent_listing listed = Some listed_agents" "list_all is_agent listed_agents"
    "\<not> list_ex (agent_named ''nonexistent-service'') listed_agents"
    by (simp_all add: concrete_calls dict_get_def)
  show ?thesis
    using rq call l res
      call_failures_surfaced [where w = "env_with offline None" and c = ?c
        and e = "ClientError ''Cannot connect to host''" and n = "''svc-a''" and m = "''tutor''"
        and p = "[]"]
      call_failures_surfaced [where w = "env_with rejecting None" and c = ?c
        and r = "\<lparr>status = 400, text_result = Inr ''name must not be empty'',
                   json_result = Inr JNull\<rparr>"
        and t = "''name must not be empty''" and n = "''svc-a''" and m = "''tutor''" and p = "[]"]
      call_failures_surfaced [where w = "env_with (registry_then (reply 200 [] JNull)) None"
        and c = ?c and r = listed and agents = listed_agents and n = "''nonexistent-service''"
        and m = "''tutor''" and p = "[]"]
      call_failures_surfaced
        [where w = "env_with (registry_then (Raises (OtherException ''TimeoutError'' []))) None"
        and c = ?c and e = "OtherException ''TimeoutError'' []" and n = "''svc-a''"
        and m = "''tutor''" and p = "[]" and ep = "JStr ''http://localhost:9003''"
        and v = "env_with (registry_then (Raises (OtherException ''TimeoutError'' []))) None
                    \<lparr>sent := [?rq]\<rparr>"]
      call_failures_surfaced
        [where w = "env_with (registry_then (Raises (ClientError ''Server disconnected''))) None"
        and c = ?c and msg = "''Server disconnected''" and n = "''svc-a''"
        and m = "''tutor''" and p = "[]" and ep = "JStr ''http://localhost:9003''"
        and v = "env_with (registry_then (Raises (ClientError ''Server disconnected''))) None
                    \<lparr>sent := [?rq]\<rparr>"]
      call_failures_surfaced
        [where w = "env_with (registry_then (reply 503 ''busy'' JNull)) None"
        and c = ?c and t = "''busy''" and n = "''svc-a''"
        and r = "\<lparr>status = 503, text_result = Inr ''busy'', json_result = Inr JNull\<rparr>"
        and m = "''tutor''" and p = "[]" and ep = "JStr ''http://localhost:9003''"
        and v = "env_with (registry_then (reply 503 ''busy'' JNull)) None\<lparr>sent := [?rq]\<rparr>"]
    by (simp add: error_class_def str_nat.simps env_with_def offline_def rejecting_def reply_def
        registry_then_def listed_def)
qed

subsection \<open>C2: an unknown service fails before any call\<close>

text \<open>
  C2. When the registry answers the listing request with a list of agents none of which has
  the requested name, \<open>call_service\<close> raises \<open>ServiceDiscoveryError\<close>, and the one request
  it has issued is the \<open>GET\<close> of the registry's listing: nothing was sent to a target.
\<close>

theorem unknown_service_fails_before_call:
  assumes "respond w (sent w) (endpoint_request c w) = Responds r"
    and "agent_listing r = Some agents"
    and "list_all is_agent agents"
    and "\<not> list_ex (agent_named n) agents"
  shows "call_service c w n m p =
     (Inl (ServiceDiscoveryError (''Service '' @ [CHR 0x27] @ n @ [CHR 0x27] @ '' not found'')),
      start c, w\<lparr>sent := sent w @ [endpoint_request c w]\<rparr>)
     \<and> rq_method (endpoint_request c w) = GET
     \<and> rq_url (endpoint_request c w) = registry_endpoint (config c) @ ''/registry/agents''"
proof -
  have "filter (agent_named n) agents = []"
    using assms(4) by (simp add: list_ex_iff filter_empty_conv)
  then have "find_endpoint agents n =
      Inl (ServiceDiscoveryError (''Service '' @ [CHR 0x27] @ n @ [CHR 0x27] @ '' not found''))"
    using assms(3) by (simp add: find_endpoint_first)
  moreover have "get_service_endpoint (start c) w n =
      (find_endpoint agents n, w\<lparr>sent := sent w @ [endpoint_request c w]\<rparr>)"
    using get_service_endpoint_listing [of "start c" w r agents n] assms(1,2) by simp
  ultimately show ?thesis
    by (simp add: call_service_def endpoint_request_def)
qed

theorem unknown_service_fails_before_call_witness:
  "respond (env_with (registry_then (reply 200 [] JNull)) None)
      (sent (env_with (registry_then (reply 200 [] JNull)) None))
      (endpoint_request (init_client tutor_config)
         (env_with (registry_then (reply 200 [] JNull)) None)) = Responds listed
   \<and> agent_listing listed = Some listed_agents
   \<and> list_all is_agent listed_agents
   \<and> \<not> list_ex (agent_named ''nonexistent-service'') listed_agents
   \<and> fst (call_service (init_client tutor_config)
        (env_with (registry_then (reply 200 [] JNull)) None) ''nonexistent-service'' ''tutor'' []) =
       Inl (ServiceDiscoveryError (''Service '' @ [CHR 0x27] @ ''nonexistent-service'' @ [CHR 0x27]
              @ '' not found''))
   \<and> map rq_url (sent (snd (snd (call_service (init_client tutor_config)
        (env_with (registry_then (reply 200 [] JNull)) None)
        ''nonexistent-service'' ''tutor'' [])))) = [''http://localhost:8080/registry/agents'']"
proof -
  let ?w = "env_with (registry_then (reply 200 [] JNull)) None"
  let ?c = "init_client tutor_config"
  have r: "respond ?w (sent ?w) (endpoint_request ?c ?w) = Responds listed"
    by (simp add: concrete_calls concrete_client)
  have l: "agent_listing listed = Some listed_agents"
    by (simp add: concrete_calls concrete_client)
  have a: "list_all is_agent listed_agents"
    by (simp add: concrete_calls)
  have n: "\<not> list_ex (agent_named ''nonexistent-service'') listed_agents"
    by (simp add: concrete_calls dict_get_def)
  show ?thesis
    using r l a n unknown_service_fails_before_call [OF r l a n, of "''tutor''" "[]"]
    by (simp add: endpoint_request_def concrete_client)
qed

subsection \<open>C3: last_seen never decreases\<close>

text \<open>
  C3. In the store, whatever heartbeats arrive and in whatever order, the \<open>last_seen\<close> of an
  instance after them is at least what it was before them; a heartbeat is accepted only if its
  timestamp is at least the stored \<open>last_seen\<close>; and a heartbeat with an older timestamp
  leaves the store as it is.
\<close>

theorem last_seen_never_decreases:
  "(st i = Some a \<longrightarrow>
      (\<exists>b. apply_heartbeats st hs i = Some b \<and> si_last_seen a \<le> si_last_seen b))
   \<and> (st i = Some a \<and> fst (update_heartbeat st i ts md) = Inr True \<longrightarrow> si_last_seen a \<le> ts)
   \<and> (st i = Some a \<and> ts < si_last_seen a \<longrightarrow> snd (update_heartbeat st i ts md) = st)"
  using apply_heartbeats_last_seen [of st i a hs]
  by (auto simp: update_heartbeat_def split: if_splits)

theorem last_seen_never_decreases_witness:
  "example_store ''i-1'' = Some example_instance
   \<and> si_last_seen example_instance = 100
   \<and> map_option si_last_seen
       (apply_heartbeats example_store
          [\<lparr>h_id = ''i-1'', h_timestamp = 150, h_metadata = None\<rparr>,
           \<lparr>h_id = ''i-1'', h_timestamp = 120, h_metadata = None\<rparr>] ''i-1'') = Some 150
   \<and> fst (update_heartbeat example_store ''i-1'' 150 None) = Inr True
   \<and> fst (update_heartbeat example_store ''i-1'' 90 None) = Inr False
   \<and> snd (update_heartbeat example_store ''i-1'' 90 None) = example_store"
  using last_seen_never_decreases [of example_store "''i-1''" example_instance
          "[\<lparr>h_id = ''i-1'', h_timestamp = 150, h_metadata = None\<rparr>,
            \<lparr>h_id = ''i-1'', h_timestamp = 120, h_metadata = None\<rparr>]" 150 None]
        last_seen_never_decreases [of example_store "''i-1''" example_instance "[]" 90 None]
  by (simp add: example_store_def example_instance_def update_heartbeat_def merge_metadata_def)

subsection \<open>C4: which supplied identifiers are accepted\<close>

text \<open>
  C4, as stated, fails. A middleware built with \<open>validate=False\<close> accepts the identifier of
  the module's own test of invalid identifiers, and echoes it.
\<close>

theorem unvalidated_id_counterexample:
  "fst (dispatch lenient_middleware
        (request_with [(''X-Correlation-ID'', ''invalid@id#with$special%chars'')]) plain_app
        (env_with offline None)) =
       Inr \<lparr>out_headers = [(''X-Correlation-ID'', ''invalid@id#with$special%chars'')]\<rparr>
   \<and> \<not> acceptable_id ''invalid@id#with$special%chars''"
  by (simp add: dispatch_def get_correlation_id_from_request_def Let_def concrete_middleware)

text \<open>
  C4, amended. The identifier that a request supplies is the first non-empty value among the
  known headers, in their order. With validation on (the default) it is accepted if and only if
  it is not empty, has at most 128 characters, and consists of ASCII letters, digits, \<open>-\<close>,
  \<open>_\<close> and \<open>.\<close>; with validation off it is accepted whatever it is. When it is not accepted,
  and when the request supplies none, the generator makes one. In each case the request is
  processed under the identifier so chosen.
\<close>

theorem supplied_id_accepted_iff_acceptable:
  "dispatch mw request call_next w =
     (case supplied_correlation_id request of
        Some s \<Rightarrow>
          if \<not> validate mw \<or> acceptable_id s then proceed_with mw s request call_next w
          else (case self_generator mw w of (g, w1) \<Rightarrow> proceed_with mw g request call_next w1)
      | None \<Rightarrow> (case self_generator mw w of (g, w1) \<Rightarrow> proceed_with mw g request call_next w1))"
proof (cases "validate mw")
  case True
  then show ?thesis
    by (simp add: dispatch_proceeds get_correlation_id_from_request_def
        supplied_correlation_id_def loop_validating split: option.splits)
next
  case False
  then show ?thesis
    by (simp add: dispatch_proceeds get_correlation_id_from_request_def
        supplied_correlation_id_def loop_not_validating split: option.splits)
qed

theorem supplied_id_accepted_iff_acceptable_witness:
  "fst (dispatch default_middleware
        (request_with [(''X-Correlation-ID'', ''test-correlation-12345'')]) plain_app
        (env_with offline None)) =
       Inr \<lparr>out_headers = [(''X-Correlation-ID'', ''test-correlation-12345'')]\<rparr>
   \<and> fst (dispatch default_middleware
        (request_with [(''X-Correlation-ID'', ''invalid@id#with$special%chars'')]) plain_app
        (env_with offline None)) =
       Inr \<lparr>out_headers = [(''X-Correlation-ID'', ''generated-0'')]\<rparr>
   \<and> fst (dispatch lenient_middleware
        (request_with [(''X-Request-ID'', ''two words'')]) plain_app
        (env_with offline None)) =
       Inr \<lparr>out_headers = [(''X-Correlation-ID'', ''two words'')]\<rparr>
   \<and> fst (dispatch lenient_middleware (request_with []) plain_app (env_with offline None)) =
       Inr \<lparr>out_headers = [(''X-Correlation-ID'', ''generated-0'')]\<rparr>"
  using
    supplied_id_accepted_iff_acceptable [of default_middleware
      "request_with [(''X-Correlation-ID'', ''test-correlation-12345'')]" plain_app
      "env_with offline None"]
    supplied_id_accepted_iff_acceptable [of default_middleware
      "request_with [(''X-Correlation-ID'', ''invalid@id#with$special%chars'')]" plain_app
      "env_with offline None"]
    supplied_id_accepted_iff_acceptable [of lenient_middleware
      "request_with [(''X-Request-ID'', ''two words'')]" plain_app "env_with offline None"]
    supplied_id_accepted_iff_acceptable [of lenient_middleware
      "request_with []" plain_app "env_with offline None"]
  by (simp add: concrete_middleware)

subsection \<open>C5: endpoint resolution is deterministic\<close>

text \<open>
  C5. When the registry lists agents of which at least one has the requested name, endpoint
  resolution returns the endpoint of the first listed agent with that name, and a second
  resolution, to which the registry answers with the same list, returns the same endpoint.
\<close>

theorem endpoint_resolution_deterministic:
  assumes "session c"
    and "respond w (sent w) (endpoint_request c w) = Responds r"
    and "respond w (sent w @ [endpoint_request c w]) (endpoint_request c w) = Responds r"
    and "agent_listing r = Some agents"
    and "list_all is_agent agents"
    and "filter (agent_named n) agents \<noteq> []"
  shows "fst (get_service_endpoint c w n) = Inr (endpoint_of (hd (filter (agent_named n) agents)))
     \<and> fst (get_service_endpoint c (snd (get_service_endpoint c w n)) n) =
         fst (get_service_endpoint c w n)"
proof -
  let ?w1 = "w\<lparr>sent := sent w @ [endpoint_request c w]\<rparr>"
  have first: "get_service_endpoint c w n = (find_endpoint agents n, ?w1)"
    using assms(1,2,4) by (rule get_service_endpoint_listing)
  have "respond ?w1 (sent ?w1) (endpoint_request c ?w1) = Responds r"
    using assms(3) by simp
  then have second: "get_service_endpoint c ?w1 n =
      (find_endpoint agents n, ?w1\<lparr>sent := sent ?w1 @ [endpoint_request c ?w1]\<rparr>)"
    using assms(1,4) get_service_endpoint_listing [of c ?w1 r agents n] by blast
  have "find_endpoint agents n = Inr (endpoint_of (hd (filter (agent_named n) agents)))"
    using assms(5,6) by (simp add: find_endpoint_first split: list.splits)
  with first second show ?thesis by simp
qed

theorem endpoint_resolution_deterministic_witness:
  "session started_client
   \<and> agent_listing listed = Some listed_agents
   \<and> list_all is_agent listed_agents
   \<and> filter (agent_named ''dup-svc'') listed_agents =
       [JObj [(''name'', JStr ''dup-svc''), (''endpoint'', JStr ''http://localhost:9001'')],
        JObj [(''name'', JStr ''dup-svc''), (''endpoint'', JStr ''http://localhost:9002'')]]
   \<and> fst (get_service_endpoint started_client (env_with (registry_then (reply 200 [] JNull)) None)
        ''dup-svc'') = Inr (JStr ''http://localhost:9001'')
   \<and> fst (get_service_endpoint started_client
        (snd (get_service_endpoint started_client
               (env_with (registry_then (reply 200 [] JNull)) None) ''dup-svc''))
        ''dup-svc'') = Inr (JStr ''http://localhost:9001'')"
proof -
  let ?w = "env_with (registry_then (reply 200 [] JNull)) None"
  let ?c = "started_client"
  have s: "session ?c"
    by (simp add: started_client_def)
  have r: "respond ?w (sent ?w) (endpoint_request ?c ?w) = Responds listed"
    by (simp add: concrete_calls concrete_client)
  have r': "respond ?w (sent ?w @ [endpoint_request ?c ?w]) (endpoint_request ?c ?w) = Responds listed"
    by (simp add: concrete_calls concrete_client)
  have l: "agent_listing listed = Some listed_agents"
    by (simp add: concrete_calls concrete_client)
  have a: "list_all is_agent listed_agents"
    by (simp add: concrete_calls)
  have f: "filter (agent_named ''dup-svc'') listed_agents =
       [JObj [(''name'', JStr ''dup-svc''), (''endpoint'', JStr ''http://localhost:9001'')],
        JObj [(''name'', JStr ''dup-svc''), (''endpoint'', JStr ''http://localhost:9002'')]]"
    by (simp add: concrete_calls dict_get_def)
  have ne: "filter (agent_named ''dup-svc'') listed_agents \<noteq> []"
    by (simp add: f)
  show ?thesis
    using s l a f endpoint_resolution_deterministic [OF s r r' l a ne]
    by (simp add: endpoint_of_def dict_get_def)
qed

subsection \<open>C6: registering without a name\<close>

text \<open>
  C6, as stated, fails. The client registers a configuration with an empty name and an
  endpoint that is no URL like any other: when the registry rejects it with status 400, the
  error is a \<open>RegistrationError\<close>; and when the registry admits it, with status 201 and the
  record it has made, \<open>register\<close> succeeds and the client is registered.
\<close>

theorem empty_name_counterexample:
  "error_class (fst (register (init_client unnamed_config) (env_with rejecting None))) =
     Some RegistrationError_class
   \<and> respond (env_with admitting None) []
        (register_request (init_client unnamed_config) (env_with admitting None)) =
       Responds (created (registration_body unnamed_config))
   \<and> fst (register (init_client unnamed_config) (env_with admitting None)) =
       Inr (registration_of (registration_body unnamed_config))
   \<and> is_registered (fst (snd (register (init_client unnamed_config) (env_with admitting None))))"
  by (simp add: register_def http_def Let_def error_class_def is_registered_def concrete_client)

text \<open>
  C6, amended. \<open>register\<close> checks neither the name nor the endpoint: it sends exactly one
  request, which carries them as the configuration has them. When the registry answers with a
  status other than 200 and 201, \<open>register\<close> fails, and \<open>agent_id\<close> and \<open>is_registered\<close>
  are what they were; the error is \<open>RegistrationError\<close> when the body of the answer can be
  read, and also when reading it raises an \<open>aiohttp\<close> client error.
\<close>

theorem registration_not_validated_locally:
  "rq_json (register_request c w) =
     RegistrationBody \<lparr>rr_name = cfg_name (config c), rr_endpoint = cfg_endpoint (config c),
       rr_capabilities = cfg_capabilities (config c), rr_metadata = cfg_metadata (config c)\<rparr>
   \<and> issued w (snd (snd (register c w))) = [register_request c w]
   \<and> (respond w (sent w) (register_request c w) = Responds r
        \<and> status r \<noteq> 200 \<and> status r \<noteq> 201 \<longrightarrow>
      isl (fst (register c w))
      \<and> agent_id (fst (snd (register c w))) = agent_id c
      \<and> is_registered (fst (snd (register c w))) = is_registered c
      \<and> (text_result r = Inr t \<longrightarrow>
          fst (register c w) =
            Inl (RegistrationError
                   (''Registration failed with status '' @ str_nat (status r) @ '': '' @ t)))
      \<and> (text_result r = Inl (ClientError m) \<longrightarrow>
          fst (register c w) =
            Inl (RegistrationError (''Network error during registration: '' @ m))))"
proof (intro conjI impI)
  show "rq_json (register_request c w) =
     RegistrationBody \<lparr>rr_name = cfg_name (config c), rr_endpoint = cfg_endpoint (config c),
       rr_capabilities = cfg_capabilities (config c), rr_metadata = cfg_metadata (config c)\<rparr>"
    by (simp add: register_request_def)
  show "issued w (snd (snd (register c w))) = [register_request c w]"
    by (simp add: register_env)
  assume h: "respond w (sent w) (register_request c w) = Responds r
        \<and> status r \<noteq> 200 \<and> status r \<noteq> 201"
  then have d: "decoded_registration w r = None"
    by (simp add: decoded_registration_def)
  from h d show "isl (fst (register c w))"
    using register_fails_undecoded [of w c r] by simp
  from h d show "agent_id (fst (snd (register c w))) = agent_id c"
    using register_fails_undecoded [of w c r] by simp
  from h d show "is_registered (fst (snd (register c w))) = is_registered c"
    using register_fails_undecoded [of w c r] by (simp add: is_registered_def)
  show "fst (register c w) =
            Inl (RegistrationError
                   (''Registration failed with status '' @ str_nat (status r) @ '': '' @ t))"
    if "text_result r = Inr t"
    using h that by (simp add: register_fails_status)
  show "fst (register c w) =
            Inl (RegistrationError (''Network error during registration: '' @ m))"
    if "text_result r = Inl (ClientError m)"
    using h that by (simp add: register_def http_def Let_def)
qed

theorem registration_not_validated_locally_witness:
  "rq_json (register_request (init_client unnamed_config) (env_with rejecting None)) =
     RegistrationBody \<lparr>rr_name = [], rr_endpoint = ''not a url'',
       rr_capabilities = [''tutoring'', ''education'', ''assistance''],
       rr_metadata = [(''version'', JStr ''1.0.0''), (''language'', JStr ''python''),
                      (''framework'', JStr ''fastapi'')]\<rparr>
   \<and> respond (env_with rejecting None) (sent (env_with rejecting None))
        (register_request (init_client unnamed_config) (env_with rejecting None)) =
       Responds \<lparr>status = 400, text_result = Inr ''name must not be empty'',
                 json_result = Inr JNull\<rparr>
   \<and> fst (register (init_client unnamed_config) (env_with rejecting None)) =
       Inl (RegistrationError ''Registration failed with status 400: name must not be empty'')
   \<and> agent_id (fst (snd (register (init_client unnamed_config) (env_with rejecting None)))) = None
   \<and> \<not> is_registered (fst (snd (register (init_client unnamed_config) (env_with rejecting None))))"
proof -
  have b: "respond (env_with rejecting None) (sent (env_with rejecting None))
        (register_request (init_client unnamed_config) (env_with rejecting None)) =
       Responds \<lparr>status = 400, text_result = Inr ''name must not be empty'',
                 json_result = Inr JNull\<rparr>"
    by (simp add: concrete_client)
  have i: "agent_id (init_client unnamed_config) = None"
    "\<not> is_registered (init_client unnamed_config)"
    "config (init_client unnamed_config) = unnamed_config"
    by (simp_all add: init_client_def is_registered_def)
  show ?thesis
    using b i
      registration_not_validated_locally [of "init_client unnamed_config"
        "env_with rejecting None"
        "\<lparr>status = 400, text_result = Inr ''name must not be empty'', json_result = Inr JNull\<rparr>"
        "''name must not be empty''"]
    by (simp add: str_nat.simps unnamed_config_def tutor_config_def)
qed

subsection \<open>C7: the heartbeat loop keeps its exceptions\<close>

text \<open>
  C7. No exception leaves the heartbeat loop. In an environment whose network delivers no
  cancellation, the loop has ended if and only if one of its sleeps was cancelled, and until
  then it has sent one heartbeat for each sleep that ended, stamped with the time at which it
  ended. Iteration by iteration: with none left to observe the loop is still running; a
  cancelled sleep ends the loop, and so does a cancellation
  raised while the heartbeat is sent; after a heartbeat that returns, the loop goes on with
  the iterations that follow; and after a heartbeat that raises anything else, the exception
  is logged and the loop goes on as well.
\<close>

theorem heartbeat_loop_contains_exceptions:
  "fst (heartbeat_loop c w ticks) \<noteq> Propagated e
   \<and> (never_cancelled w \<longrightarrow>
        fst (heartbeat_loop c w ticks) =
          (if SleepCancelled \<in> set ticks then Cancelled else Running))
   \<and> (never_cancelled w \<and> agent_id c = Some aid \<longrightarrow>
        issued w (snd (snd (snd (heartbeat_loop c w ticks)))) =
          map (\<lambda>t. heartbeat_request_of c (w\<lparr>now := t\<rparr>) aid) (sleep_times ticks))
   \<and> heartbeat_loop c w [] = (Running, [], c, w)
   \<and> heartbeat_loop c w (SleepCancelled # ticks) = (Cancelled, [], c, w)
   \<and> (send_heartbeat c (w\<lparr>now := t\<rparr>) = (Inl CancelledError, c', w') \<longrightarrow>
        heartbeat_loop c w (SleepDone t # ticks) = (Cancelled, [], c', w'))
   \<and> (send_heartbeat c (w\<lparr>now := t\<rparr>) = (Inr ok, c', w') \<longrightarrow>
        heartbeat_loop c w (SleepDone t # ticks) = heartbeat_loop c' w' ticks)
   \<and> (send_heartbeat c (w\<lparr>now := t\<rparr>) = (Inl e, c', w') \<and> e \<noteq> CancelledError \<longrightarrow>
        heartbeat_loop c w (SleepDone t # ticks) =
          (case heartbeat_loop c' w' ticks of
             (st, logged, c'', w'') \<Rightarrow> (st, e # logged, c'', w'')))"
proof (intro conjI impI)
  show "fst (heartbeat_loop c w ticks) \<noteq> Propagated e"
    by (rule loop_never_propagates)
  show "fst (heartbeat_loop c w ticks) =
          (if SleepCancelled \<in> set ticks then Cancelled else Running)"
    if "never_cancelled w"
    using that by (rule loop_state)
  show "issued w (snd (snd (snd (heartbeat_loop c w ticks)))) =
          map (\<lambda>t. heartbeat_request_of c (w\<lparr>now := t\<rparr>) aid) (sleep_times ticks)"
    if "never_cancelled w \<and> agent_id c = Some aid"
    using that loop_sent [of w c aid ticks] by (simp add: issued_def)
  show "heartbeat_loop c w [] = (Running, [], c, w)"
    by simp
  show "heartbeat_loop c w (SleepCancelled # ticks) = (Cancelled, [], c, w)"
    by simp
  show "heartbeat_loop c w (SleepDone t # ticks) = (Cancelled, [], c', w')"
    if "send_heartbeat c (w\<lparr>now := t\<rparr>) = (Inl CancelledError, c', w')"
    using that by simp
  show "heartbeat_loop c w (SleepDone t # ticks) = heartbeat_loop c' w' ticks"
    if "send_heartbeat c (w\<lparr>now := t\<rparr>) = (Inr ok, c', w')"
    using that by simp
  show "heartbeat_loop c w (SleepDone t # ticks) =
          (case heartbeat_loop c' w' ticks of
             (st, logged, c'', w'') \<Rightarrow> (st, e # logged, c'', w''))"
    if "send_heartbeat c (w\<lparr>now := t\<rparr>) = (Inl e, c', w') \<and> e \<noteq> CancelledError"
    using that every_exception_handled [of e] by (auto split: prod.splits)
qed

theorem heartbeat_loop_contains_exceptions_witness:
  "never_cancelled (env_with timing_out None)
   \<and> never_cancelled (env_with accepting None)
   \<and> agent_id registered_client = Some (Uuid ''123e4567-e89b-12d3-a456-426614174000'')
   \<and> fst (send_heartbeat registered_client ((env_with timing_out None)\<lparr>now := 30\<rparr>)) =
       Inl (OtherException ''TimeoutError'' [])
   \<and> fst (heartbeat_loop registered_client (env_with timing_out None)
            [SleepDone 30, SleepDone 60]) = Running
   \<and> fst (snd (heartbeat_loop registered_client (env_with timing_out None)
            [SleepDone 30, SleepDone 60])) =
       [OtherException ''TimeoutError'' [], OtherException ''TimeoutError'' []]
   \<and> fst (send_heartbeat registered_client ((env_with accepting None)\<lparr>now := 30\<rparr>)) = Inr True
   \<and> fst (heartbeat_loop registered_client (env_with accepting None)
            [SleepDone 30, SleepDone 60, SleepCancelled, SleepDone 120]) = Cancelled
   \<and> map rq_json (sent (snd (snd (snd (heartbeat_loop registered_client (env_with accepting None)
            [SleepDone 30, SleepDone 60, SleepCancelled, SleepDone 120]))))) =
       [HeartbeatBody \<lparr>hb_timestamp = 30, hb_status = Some ''active'',
                       hb_metadata = Some (cfg_metadata tutor_config)\<rparr>,
        HeartbeatBody \<lparr>hb_timestamp = 60, hb_status = Some ''active'',
                       hb_metadata = Some (cfg_metadata tutor_config)\<rparr>]"
proof -
  let ?w = "env_with timing_out None"
  let ?v = "env_with accepting None"
  let ?c = "registered_client"
  let ?aid = "Uuid ''123e4567-e89b-12d3-a456-426614174000''"
  have n: "never_cancelled ?w" "never_cancelled ?v"
    by (simp_all add: never_cancelled_def env_with_def timing_out_def accepting_def reply_def)
  have a: "agent_id ?c = Some ?aid"
    by (simp add: registered_client_def)
  have s: "send_heartbeat ?c (?w\<lparr>now := 30\<rparr>) =
      (Inl (OtherException ''TimeoutError'' []), start ?c,
       ?w\<lparr>now := 30, sent := [heartbeat_request_of ?c (?w\<lparr>now := 30\<rparr>) ?aid]\<rparr>)"
    by (simp add: send_heartbeat_def http_def Let_def registered_client_def env_with_def
        timing_out_def)
  have l: "fst (snd (heartbeat_loop ?c ?w [SleepDone 30, SleepDone 60])) =
       [OtherException ''TimeoutError'' [], OtherException ''TimeoutError'' []]"
    by (simp add: send_heartbeat_def http_def Let_def registered_client_def env_with_def
        timing_out_def)
  have s': "fst (send_heartbeat ?c (?v\<lparr>now := 30\<rparr>)) = Inr True"
    by (simp add: send_heartbeat_def http_def Let_def registered_client_def env_with_def
        accepting_def reply_def)
  have j: "rq_json (heartbeat_request_of ?c (?v\<lparr>now := t\<rparr>) ?aid) =
      HeartbeatBody \<lparr>hb_timestamp = t, hb_status = Some ''active'',
                     hb_metadata = Some (cfg_metadata tutor_config)\<rparr>" for t
    by (simp add: heartbeat_request_of_def registered_client_def init_client_def)
  have e: "sent ?v = []"
    by (simp add: env_with_def)
  show ?thesis
    using n a s l s' e
      heartbeat_loop_contains_exceptions [of ?c ?w "[SleepDone 30, SleepDone 60]"
        "OtherException ''TimeoutError'' []" ?aid 30]
      heartbeat_loop_contains_exceptions
        [of ?c ?v "[SleepDone 30, SleepDone 60, SleepCancelled, SleepDone 120]" _ ?aid]
    by (simp add: issued_def j)
qed

subsection \<open>C8: correlation headers\<close>

text \<open>
  C8, as stated, fails. Outside a request context the context variable holds no identifier,
  and the request that \<open>register\<close> sends has no correlation header: none is generated.
\<close>

theorem header_absent_counterexample:
  "map rq_headers (sent (snd (snd (register (init_client tutor_config) (env_with offline None)))))
     = [[(''Content-Type'', ''application/json'')]]"
  by (simp add: register_env concrete_client)

text \<open>
  C8, amended. The middleware processes every incoming request under an identifier, the
  accepted one of the request or else a generated one, and the response carries it in the
  middleware's header. Every request that \<open>register\<close>, \<open>send_heartbeat\<close>,
  \<open>discover_services\<close> and \<open>call_service\<close> issue carries the header \<open>X-Correlation-ID\<close>
  exactly when the context holds a non-empty identifier, and then with that identifier.
\<close>

theorem correlation_header_when_available:
  "dispatch mw request call_next w =
     (case get_correlation_id_from_request mw request of
        Some s \<Rightarrow> proceed_with mw s request call_next w
      | None \<Rightarrow> (case self_generator mw w of (g, w1) \<Rightarrow> proceed_with mw g request call_next w1))
   \<and> (proceed_with mw cid request call_next w = (Inr response, w') \<longrightarrow>
        dict_get (out_headers response) (header_name mw) = Some cid)
   \<and> (\<forall>rq \<in> set (issued w (snd (snd (register c w)))).
        dict_get (rq_headers rq) ''X-Correlation-ID'' = available_id w)
   \<and> (\<forall>rq \<in> set (issued w (snd (snd (send_heartbeat c w)))).
        dict_get (rq_headers rq) ''X-Correlation-ID'' = available_id w)
   \<and> (\<forall>rq \<in> set (issued w (snd (snd (discover_services c w capability)))).
        dict_get (rq_headers rq) ''X-Correlation-ID'' = available_id w)
   \<and> (\<forall>rq \<in> set (issued w (snd (snd (call_service c w service_name method payload)))).
        dict_get (rq_headers rq) ''X-Correlation-ID'' = available_id w)"
proof (intro conjI)
  show "dispatch mw request call_next w =
     (case get_correlation_id_from_request mw request of
        Some s \<Rightarrow> proceed_with mw s request call_next w
      | None \<Rightarrow> (case self_generator mw w of (g, w1) \<Rightarrow> proceed_with mw g request call_next w1))"
    by (rule dispatch_proceeds)
  show "proceed_with mw cid request call_next w = (Inr response, w') \<longrightarrow>
        dict_get (out_headers response) (header_name mw) = Some cid"
    by (auto dest: echoed)
  show "\<forall>rq \<in> set (issued w (snd (snd (register c w)))).
        dict_get (rq_headers rq) ''X-Correlation-ID'' = available_id w"
    by (simp add: register_env request_headers)
  show "\<forall>rq \<in> set (issued w (snd (snd (send_heartbeat c w)))).
        dict_get (rq_headers rq) ''X-Correlation-ID'' = available_id w"
    by (simp add: send_heartbeat_env request_headers split: option.splits)
  show "\<forall>rq \<in> set (issued w (snd (snd (discover_services c w capability)))).
        dict_get (rq_headers rq) ''X-Correlation-ID'' = available_id w"
    by (simp add: discover_services_env request_headers)
  show "\<forall>rq \<in> set (issued w (snd (snd (call_service c w service_name method payload)))).
        dict_get (rq_headers rq) ''X-Correlation-ID'' = available_id w"
    by (simp add: call_service_env request_headers split: sum.splits)
qed

theorem correlation_header_when_available_witness:
  "dispatch default_middleware (request_with []) plain_app (env_with offline None) =
     proceed_with default_middleware ''generated-0'' (request_with []) plain_app
       ((env_with offline None)\<lparr>entropy := 1\<rparr>)
   \<and> proceed_with default_middleware ''abc'' (request_with []) plain_app (env_with offline None) =
       (Inr \<lparr>out_headers = [(''X-Correlation-ID'', ''abc'')]\<rparr>,
        (env_with offline None)\<lparr>correlation_id_ctx := Some ''abc''\<rparr>)
   \<and> dict_get [(''X-Correlation-ID'', ''abc'')] (header_name default_middleware) = Some ''abc''
   \<and> issued (env_with offline (Some ''abc''))
        (snd (snd (register registered_client (env_with offline (Some ''abc''))))) =
       [register_request registered_client (env_with offline (Some ''abc''))]
   \<and> dict_get (rq_headers (register_request registered_client (env_with offline (Some ''abc''))))
        ''X-Correlation-ID'' = Some ''abc''
   \<and> issued (env_with offline (Some ''abc''))
        (snd (snd (send_heartbeat registered_client (env_with offline (Some ''abc''))))) =
       [heartbeat_request_of registered_client (env_with offline (Some ''abc''))
          (Uuid ''123e4567-e89b-12d3-a456-426614174000'')]
   \<and> dict_get (rq_headers (heartbeat_request_of registered_client (env_with offline (Some ''abc''))
          (Uuid ''123e4567-e89b-12d3-a456-426614174000''))) ''X-Correlation-ID'' = Some ''abc''
   \<and> issued (env_with offline (Some ''abc''))
        (snd (snd (discover_services registered_client (env_with offline (Some ''abc''))
                     ''tutoring''))) =
       [discover_request registered_client (env_with offline (Some ''abc'')) ''tutoring'']
   \<and> dict_get (rq_headers (discover_request registered_client (env_with offline (Some ''abc''))
          ''tutoring'')) ''X-Correlation-ID'' = Some ''abc''
   \<and> map rq_headers (issued (env_with (registry_then (reply 200 [] JNull)) (Some ''abc''))
        (snd (snd (call_service registered_client
           (env_with (registry_then (reply 200 [] JNull)) (Some ''abc'')) ''svc-a'' ''tutor'' [])))) =
       [[(''X-Correlation-ID'', ''abc'')],
        [(''Content-Type'', ''application/json''), (''X-Correlation-ID'', ''abc'')]]"
proof -
  let ?w = "env_with offline (Some ''abc'')"
  let ?v = "env_with (registry_then (reply 200 [] JNull)) (Some ''abc'')"
  let ?c = "registered_client"
  have p: "proceed_with default_middleware ''abc'' (request_with []) plain_app (env_with offline None) =
       (Inr \<lparr>out_headers = [(''X-Correlation-ID'', ''abc'')]\<rparr>,
        (env_with offline None)\<lparr>correlation_id_ctx := Some ''abc''\<rparr>)"
    by (simp add: concrete_middleware)
  have g: "get_correlation_id_from_request default_middleware (request_with []) = None"
    "self_generator default_middleware (env_with offline None) =
       (''generated-0'', (env_with offline None)\<lparr>entropy := 1\<rparr>)"
    by (simp_all add: get_correlation_id_from_request_def concrete_middleware)
  have i: "issued ?w (snd (snd (register ?c ?w))) = [register_request ?c ?w]"
    "issued ?w (snd (snd (send_heartbeat ?c ?w))) =
       [heartbeat_request_of ?c ?w (Uuid ''123e4567-e89b-12d3-a456-426614174000'')]"
    "issued ?w (snd (snd (discover_services ?c ?w ''tutoring''))) =
       [discover_request ?c ?w ''tutoring'']"
    by (simp_all add: register_env send_heartbeat_env discover_services_env registered_client_def)
  have e: "fst (get_service_endpoint (start ?c) ?v ''svc-a'') = Inr (JStr ''http://localhost:9003'')"
    by (simp add: get_service_endpoint_def http_def Let_def json_get_def json_iter_def
        registered_client_def concrete_calls concrete_client)
  have j: "issued ?v (snd (snd (call_service ?c ?v ''svc-a'' ''tutor'' []))) =
      [endpoint_request ?c ?v, call_request ?c ?v (JStr ''http://localhost:9003'') ''tutor'' []]"
    by (simp add: call_service_env e)
  have a: "available_id ?w = Some ''abc''" "available_id ?v = Some ''abc''"
    by (simp_all add: available_id_def env_with_def)
  show ?thesis
    using p g i j a
      correlation_header_when_available [of default_middleware "request_with []" plain_app
        "env_with offline None" "''abc''"
        "\<lparr>out_headers = [(''X-Correlation-ID'', ''abc'')]\<rparr>"
        "(env_with offline None)\<lparr>correlation_id_ctx := Some ''abc''\<rparr>"]
      correlation_header_when_available [of _ _ _ ?w _ _ _ ?c "''tutoring''"]
      correlation_header_when_available [of _ _ _ ?v _ _ _ ?c _ "''svc-a''" "''tutor''" "[]"]
    by (simp add: registered_client_def concrete_calls concrete_client)
qed

subsection \<open>C9: heartbeats need a registration\<close>

text \<open>
  C9. A client whose \<open>agent_id\<close> is unset gets \<open>HeartbeatError\<close> from \<open>send_heartbeat\<close>, and a
  client that is not marked registered gets \<open>HeartbeatError\<close> from \<open>start_heartbeat\<close>. In both
  cases the client and the environment come back as they were: no request was issued.
\<close>

theorem heartbeat_requires_registration:
  "(agent_id c = None \<longrightarrow>
      send_heartbeat c w =
        (Inl (HeartbeatError ''Service not registered - cannot send heartbeat''), c, w))
   \<and> (\<not> registered c \<longrightarrow>
      start_heartbeat c w =
        (Inl (HeartbeatError ''Service must be registered before starting heartbeat''), c, w))"
  by (simp add: send_heartbeat_def start_heartbeat_def)

theorem heartbeat_requires_registration_witness:
  "agent_id (init_client tutor_config) = None
   \<and> \<not> registered (init_client tutor_config)
   \<and> send_heartbeat (init_client tutor_config) (env_with (\<lambda>h rq. reply 200 [] JNull) None) =
        (Inl (HeartbeatError ''Service not registered - cannot send heartbeat''),
         init_client tutor_config, env_with (\<lambda>h rq. reply 200 [] JNull) None)
   \<and> start_heartbeat (init_client tutor_config) (env_with (\<lambda>h rq. reply 200 [] JNull) None) =
        (Inl (HeartbeatError ''Service must be registered before starting heartbeat''),
         init_client tutor_config, env_with (\<lambda>h rq. reply 200 [] JNull) None)"
  using heartbeat_requires_registration
          [of "init_client tutor_config" "env_with (\<lambda>h rq. reply 200 [] JNull) None"]
  by (simp add: init_client_def)

subsection \<open>C10: when register succeeds\<close>




end
